theory Spec2Isabelle
  imports Complex_Main "HOL-Library.Log_Nat"
begin

section \<open>Common notions\<close>

text \<open>
  The Python exceptions that the modelled functions can raise. An operation that raises
  does so before it writes the state document, so \<open>Inl e\<close> also means that the
  persisted state is the one the operation started from.
\<close>

datatype error = ValueError | KeyError | ZeroDivisionError | FileNotFoundError

text \<open>A reading of the clock (\<open>datetime.now()\<close>), passed to every operation that stamps the state.\<close>

type_synonym timestamp = nat

text \<open>Python's truth test on an optional string: \<open>None\<close> and the empty string are false.\<close>

fun truthy :: "string option \<Rightarrow> bool" where
  "truthy None = False"
| "truthy (Some s) = (s \<noteq> [])"

text \<open>\<open>list.index\<close>: the position of the first occurrence, \<open>None\<close> where Python raises ValueError.\<close>

fun list_index :: "'a list \<Rightarrow> 'a \<Rightarrow> nat option" where
  "list_index [] y = None"
| "list_index (x # xs) y =
     (if x = y then Some 0 else map_option Suc (list_index xs y))"

section \<open>The PATEOAS state engine (core/state_engine.py)\<close>

record abnormality =
  abn_id :: string
  abn_stage_id :: string
  abn_description :: string
  abn_severity :: string
  abn_detected_at :: timestamp
  abn_status :: string

text \<open>
  The state document \<open>.aceflow/current_state.json\<close>. The dictionaries \<open>stage_status\<close>
  and \<open>progress\<close> are maps from stage ids.
\<close>

record engine_state =
  current_stage :: string
  stage_status :: "string \<rightharpoonup> string"
  progress :: "string \<rightharpoonup> int"
  memory_ids :: "string list"
  last_updated :: timestamp
  abnormalities :: "abnormality list"

text \<open>
  \<open>self.stage_definitions\<close>, in insertion order: the stage id and its \<open>next_stage\<close>.
  The display names are not used by any operation.
\<close>

definition stage_definitions :: "(string \<times> string option) list" where
  "stage_definitions =
     [(''S1'', Some ''S2''), (''S2'', Some ''S3''), (''S3'', Some ''S4''),
      (''S4'', Some ''S5''), (''S5'', Some ''S6''), (''S6'', Some ''S7''),
      (''S7'', Some ''S8''), (''S8'', None)]"

text \<open>The loop that appends each memory id not yet in \<open>state['memory_ids']\<close>.\<close>

fun add_memory_ids :: "string list \<Rightarrow> string list \<Rightarrow> string list" where
  "add_memory_ids [] acc = acc"
| "add_memory_ids (m # ms) acc =
     add_memory_ids ms (if m \<in> set acc then acc else acc @ [m])"

definition save_state :: "timestamp \<Rightarrow> 'a engine_state_scheme \<Rightarrow> 'a engine_state_scheme" where
  "save_state now state_data = state_data\<lparr>last_updated := now\<rparr>"

text \<open>\<open>if memory_ids: ...\<close>: nothing is added for \<open>None\<close> (or an empty list).\<close>

definition extend_memory_ids ::
  "string list option \<Rightarrow> 'a engine_state_scheme \<Rightarrow> 'a engine_state_scheme" where
  "extend_memory_ids mem_ids state =
     (case mem_ids of
        None \<Rightarrow> state
      | Some ms \<Rightarrow> state\<lparr>memory_ids := add_memory_ids ms (memory_ids state)\<rparr>)"

definition update_stage_progress ::
  "timestamp \<Rightarrow> engine_state \<Rightarrow> string \<Rightarrow> int \<Rightarrow> string list option \<Rightarrow> error + engine_state" where
  "update_stage_progress now state stage_id p mem_ids =
     (if progress state stage_id = None then Inl ValueError
      else
        (let state1 = state\<lparr>progress := (progress state)(stage_id \<mapsto> p),
                             current_stage := stage_id\<rparr>
         in if p \<ge> 100 then
              (let state2 = state1\<lparr>stage_status := (stage_status state1)(stage_id \<mapsto> ''completed'')\<rparr>
               in case map_of stage_definitions stage_id of
                    None \<Rightarrow> Inl KeyError
                  | Some nxt \<Rightarrow>
                      if truthy nxt then
                        Inr (save_state now (extend_memory_ids mem_ids
                          (state2\<lparr>current_stage := the nxt,
                                  stage_status := (stage_status state2)(the nxt \<mapsto> ''in_progress'')\<rparr>)))
                      else Inr (save_state now (extend_memory_ids mem_ids state2)))
            else
              Inr (save_state now (extend_memory_ids mem_ids
                (state1\<lparr>stage_status := (stage_status state1)(stage_id \<mapsto> ''in_progress'')\<rparr>)))))"

definition initialize_state :: "timestamp \<Rightarrow> engine_state" where
  "initialize_state now =
     \<lparr>current_stage = ''S1'',
      stage_status = (map_of (map (\<lambda>(stage_id, d). (stage_id, ''not_started'')) stage_definitions))
                       (''S1'' \<mapsto> ''in_progress''),
      progress = map_of (map (\<lambda>(stage_id, d). (stage_id, 0)) stage_definitions),
      memory_ids = [],
      last_updated = now,
      abnormalities = []\<rparr>"

text \<open>
  A navigation suggestion. The source builds a dictionary with the keys \<open>type\<close>,
  \<open>priority\<close>, \<open>message\<close>, \<open>action_suggestion\<close>, \<open>requires_confirmation\<close> (always
  true) and, outside the abnormality case, \<open>rationale\<close> (a fixed text). The message and
  the suggested action are formatted from the values kept here:
  \<^item> \<open>AbnormalitySuggestion priority description id\<close>: act on
    \<open>resolve_abnormality(id)\<close>;
  \<^item> \<open>ProgressSuggestion stage progress remaining target\<close>: act on
    \<open>update_stage_progress(stage, target)\<close>;
  \<^item> \<open>TransitionSuggestion stage next\<close>: act on \<open>update_stage_progress(next, 0)\<close>.
\<close>

datatype suggestion =
    AbnormalitySuggestion string string string
  | ProgressSuggestion string int int int
  | TransitionSuggestion string string

fun suggestion_type :: "suggestion \<Rightarrow> string" where
  "suggestion_type (AbnormalitySuggestion pr d i) = ''abnormality''"
| "suggestion_type (ProgressSuggestion s p r t) = ''progress''"
| "suggestion_type (TransitionSuggestion s n) = ''transition''"

fun suggestion_priority :: "suggestion \<Rightarrow> string" where
  "suggestion_priority (AbnormalitySuggestion pr d i) = pr"
| "suggestion_priority (ProgressSuggestion s p r t) = ''medium''"
| "suggestion_priority (TransitionSuggestion s n) = ''high''"

text \<open>The unresolved abnormalities recorded for a stage, in recorded order.\<close>

definition unresolved_for :: "string \<Rightarrow> abnormality list \<Rightarrow> abnormality list" where
  "unresolved_for stage abns =
     filter (\<lambda>a. abn_status a = ''unresolved'' \<and> abn_stage_id a = stage) abns"

definition abnormality_suggestion :: "abnormality \<Rightarrow> suggestion" where
  "abnormality_suggestion abn =
     AbnormalitySuggestion (if abn_severity abn = ''high'' then ''high'' else ''medium'')
       (abn_description abn) (abn_id abn)"

definition get_navigation_suggestion :: "engine_state \<Rightarrow> error + suggestion list" where
  "get_navigation_suggestion state =
     (let cur = current_stage state;
          p = (case progress state cur of None \<Rightarrow> 0 | Some v \<Rightarrow> v);
          abns = unresolved_for cur (abnormalities state)
      in if abns \<noteq> [] then Inr (map abnormality_suggestion abns)
         else if p < 100 then Inr [ProgressSuggestion cur p (100 - p) (min (p + 10) 100)]
         else (case map_of stage_definitions cur of
                 None \<Rightarrow> Inl KeyError
               | Some nxt \<Rightarrow> if truthy nxt then Inr [TransitionSuggestion cur (the nxt)] else Inr []))"

section \<open>The enhanced state engine (core/state_engine_enhanced.py)\<close>

record enhanced_state = engine_state +
  associated_outputs :: "string \<rightharpoonup> string list"
  review_status :: "string \<rightharpoonup> string"

record stage_definition =
  next_stage :: "string option"
  required_output :: string
  dependencies :: "string list"

definition stage_definitions_enhanced :: "(string \<times> stage_definition) list" where
  "stage_definitions_enhanced =
     [(''S1'', \<lparr>next_stage = Some ''S2'', required_output = ''s1_user_story.md'', dependencies = []\<rparr>),
      (''S2'', \<lparr>next_stage = Some ''S3'', required_output = ''s2_tasks.md'', dependencies = [''S1'']\<rparr>),
      (''S3'', \<lparr>next_stage = Some ''S4'', required_output = ''s3_testcases.md'', dependencies = [''S2'']\<rparr>),
      (''S4'', \<lparr>next_stage = Some ''S5'', required_output = ''s4_implementation.md'', dependencies = [''S3'']\<rparr>),
      (''S5'', \<lparr>next_stage = Some ''S6'', required_output = ''s5_test_report.md'', dependencies = [''S4'']\<rparr>),
      (''S6'', \<lparr>next_stage = Some ''S7'', required_output = ''s6_codereview.md'', dependencies = [''S5'']\<rparr>),
      (''S7'', \<lparr>next_stage = Some ''S8'', required_output = ''s7_feedback.md'', dependencies = [''S6'']\<rparr>),
      (''S8'', \<lparr>next_stage = None, required_output = ''s8_summary.md'', dependencies = [''S7'']\<rparr>)]"

text \<open>
  The directory \<open>aceflow_result/iterations\<close> as the output check reads it: \<open>None\<close> when
  the directory does not exist (\<open>os.listdir\<close> raises), otherwise its sub-directories,
  each a map from a file name to the file's size.
\<close>

type_synonym iterations_dir = "(string \<rightharpoonup> nat) list option"

definition validate_stage_output :: "iterations_dir \<Rightarrow> string \<Rightarrow> error + bool" where
  "validate_stage_output iterations stage_id =
     (case map_of stage_definitions_enhanced stage_id of
        None \<Rightarrow> Inl KeyError
      | Some d \<Rightarrow>
          (case iterations of
             None \<Rightarrow> Inl FileNotFoundError
           | Some dirs \<Rightarrow>
               Inr (list_ex (\<lambda>dir. case dir (required_output d) of
                                      None \<Rightarrow> False
                                    | Some sz \<Rightarrow> sz > 0) dirs)))"

text \<open>
  The enhanced \<open>update_stage_progress\<close>. The dependency check is commented out in the
  source, so only the output check guards the update, and only for \<open>progress >= 100\<close>.
\<close>

definition update_stage_progress_enhanced ::
  "iterations_dir \<Rightarrow> timestamp \<Rightarrow> enhanced_state \<Rightarrow> string \<Rightarrow> int \<Rightarrow> string list option
     \<Rightarrow> error + enhanced_state" where
  "update_stage_progress_enhanced iterations now state stage_id p mem_ids =
     (if progress state stage_id = None then Inl ValueError
      else
        (case (if p \<ge> 100 then validate_stage_output iterations stage_id else Inr True) of
           Inl e \<Rightarrow> Inl e
         | Inr False \<Rightarrow> Inl ValueError
         | Inr True \<Rightarrow>
             (let state1 = state\<lparr>progress := (progress state)(stage_id \<mapsto> p),
                                  current_stage := stage_id\<rparr>
              in if p \<ge> 100 then
                   (let state2 = state1\<lparr>stage_status :=
                                           (stage_status state1)(stage_id \<mapsto> ''completed'')\<rparr>
                    in case map_of stage_definitions_enhanced stage_id of
                         None \<Rightarrow> Inl KeyError
                       | Some d \<Rightarrow>
                           if truthy (next_stage d) then
                             Inr (save_state now (extend_memory_ids mem_ids
                               (state2\<lparr>current_stage := the (next_stage d),
                                       stage_status := (stage_status state2)
                                                         (the (next_stage d) \<mapsto> ''in_progress'')\<rparr>)))
                           else Inr (save_state now (extend_memory_ids mem_ids state2)))
                 else
                   Inr (save_state now (extend_memory_ids mem_ids
                     (state1\<lparr>stage_status :=
                               (stage_status state1)(stage_id \<mapsto> ''in_progress'')\<rparr>))))))"

definition initialize_state_enhanced :: "timestamp \<Rightarrow> enhanced_state" where
  "initialize_state_enhanced now =
     \<lparr>current_stage = ''S1'',
      stage_status = (map_of (map (\<lambda>(stage_id, d). (stage_id, ''not_started'')) stage_definitions_enhanced))
                       (''S1'' \<mapsto> ''in_progress''),
      progress = map_of (map (\<lambda>(stage_id, d). (stage_id, 0)) stage_definitions_enhanced),
      memory_ids = [],
      last_updated = now,
      abnormalities = [],
      associated_outputs = map_of (map (\<lambda>(stage_id, d). (stage_id, [])) stage_definitions_enhanced),
      review_status = map_of (map (\<lambda>(stage_id, d). (stage_id, ''pending'')) stage_definitions_enhanced)\<rparr>"

definition get_navigation_suggestion_enhanced :: "enhanced_state \<Rightarrow> error + suggestion list" where
  "get_navigation_suggestion_enhanced state =
     (let cur = current_stage state;
          p = (case progress state cur of None \<Rightarrow> 0 | Some v \<Rightarrow> v);
          abns = unresolved_for cur (abnormalities state)
      in if abns \<noteq> [] then Inr (map abnormality_suggestion abns)
         else if p < 100 then Inr [ProgressSuggestion cur p (100 - p) (min (p + 10) 100)]
         else (case map_of stage_definitions_enhanced cur of
                 None \<Rightarrow> Inl KeyError
               | Some d \<Rightarrow>
                   if truthy (next_stage d) then Inr [TransitionSuggestion cur (the (next_stage d))]
                   else Inr []))"



section \<open>The stage manager (aceflow-stage.py)\<close>

subsection \<open>Python's float arithmetic\<close>

text \<open>
  The stage manager computes the percentage as
  \<^verbatim>\<open>int((completed_count / total_stages) * 100)\<close>: a true division of two integers,
  a float multiplication and a truncation. A float is an IEEE 754 double: the division
  and the multiplication each return the double nearest to the exact result, with ties
  going to the even significand. Doubles are modelled by the rationals they denote. The
  exponent range is not modelled (the values here are quotients of two list lengths,
  times 100, far from overflow and underflow).
\<close>

text \<open>The nearest integer, ties to even.\<close>

definition round_half_even :: "rat \<Rightarrow> int" where
  "round_half_even x =
     (let f = \<lfloor>x\<rfloor>; d = x - of_int f
      in if d < 1 / 2 then f else if 1 / 2 < d then f + 1 else if even f then f else f + 1)"

text \<open>The exponent \<open>e\<close> with \<open>2^e \<le> x < 2^(e+1)\<close>, for a positive \<open>x\<close>.\<close>

definition binary_exponent :: "rat \<Rightarrow> int" where
  "binary_exponent x =
     (let (a, b) = quotient_of x; e0 = bitlen a - bitlen b
      in if 2 powi e0 \<le> x then e0 else e0 - 1)"

text \<open>Rounding to a significand of 53 bits.\<close>

definition round_double :: "rat \<Rightarrow> rat" where
  "round_double x =
     (if x = 0 then 0
      else (let u = 2 powi (binary_exponent \<bar>x\<bar> - 52)
            in of_int (round_half_even (x / u)) * u))"

definition py_truediv :: "int \<Rightarrow> int \<Rightarrow> error + rat" where
  "py_truediv a b =
     (if b = 0 then Inl ZeroDivisionError else Inr (round_double (of_int a / of_int b)))"

definition py_float_mul :: "rat \<Rightarrow> rat \<Rightarrow> rat" where
  "py_float_mul x y = round_double (x * y)"

text \<open>\<open>int(x)\<close> truncates towards zero.\<close>

definition py_int :: "rat \<Rightarrow> int" where
  "py_int x = (if 0 \<le> x then \<lfloor>x\<rfloor> else \<lceil>x\<rceil>)"

text \<open>The expression \<^verbatim>\<open>int((completed_count / total_stages) * 100)\<close>.\<close>

definition progress_percent :: "nat \<Rightarrow> nat \<Rightarrow> error + int" where
  "progress_percent completed_count total_stages =
     (case py_truediv (int completed_count) (int total_stages) of
        Inl e \<Rightarrow> Inl e
      | Inr q \<Rightarrow> Inr (py_int (py_float_mul q 100)))"

subsection \<open>The state documents\<close>

text \<open>
  \<open>current_state.json\<close>, with the fields of \<open>project\<close> and \<open>flow\<close> that the stage
  commands read or write. The documents are taken as the initialiser writes them: the
  keys used below are present.
\<close>

record flow_document =
  project_mode :: string
  project_last_updated :: timestamp
  flow_current_stage :: string
  completed_stages :: "string list"
  flow_next_stage :: "string option"
  progress_percentage :: int

text \<open>
  One entry of \<open>stage_progress.json\<close> under \<open>stages\<close>; \<open>last_updated\<close> is an
  optional key. Other keys of an entry are never touched by the commands.
\<close>

record stage_entry =
  entry_status :: string
  entry_progress :: int
  entry_last_updated :: "timestamp option"

type_synonym stage_progress = "string \<rightharpoonup> stage_entry"

definition get_stage_order :: "string \<Rightarrow> string list" where
  "get_stage_order mode =
     (if mode = ''minimal'' then [''analysis'', ''planning'', ''implementation'', ''validation'']
      else if mode = ''standard'' then
        [''user_stories'', ''tasks_planning'', ''test_design'', ''implementation'', ''testing'',
         ''review'']
      else if mode = ''complete'' then
        [''s1_user_story'', ''s2_tasks_group'', ''s3_testcases'', ''s4_implementation'',
         ''s5_test_report'', ''s6_codereview'', ''s7_demo_script'', ''s8_summary_report'']
      else if mode = ''smart'' then [''analysis'', ''planning'', ''implementation'', ''validation'']
      else [])"

definition save_current_state :: "timestamp \<Rightarrow> flow_document \<Rightarrow> flow_document" where
  "save_current_state now state = state\<lparr>project_last_updated := now\<rparr>"

text \<open>
  The answer to a confirmation prompt, already stripped and in lower case, is a parameter
  of each command; it is read only when the command is not forced.
\<close>

definition accepted :: "string \<Rightarrow> bool" where
  "accepted response = (response = ''y'' \<or> response = ''yes'')"

text \<open>The stage after a given one in the stage order, if there is one.\<close>

definition stage_after :: "string list \<Rightarrow> string \<Rightarrow> string option" where
  "stage_after stage_order stage =
     (case list_index stage_order stage of
        None \<Rightarrow> None
      | Some current_index \<Rightarrow>
          if current_index + 1 < length stage_order
          then Some (stage_order ! (current_index + 1)) else None)"


definition complete_stage ::
  "timestamp \<Rightarrow> bool \<Rightarrow> string \<Rightarrow> flow_document \<Rightarrow> stage_progress \<Rightarrow> string
     \<Rightarrow> error + bool \<times> flow_document \<times> stage_progress" where
  "complete_stage now force response state prog stage =
     (case prog stage of
        None \<Rightarrow> Inr (False, state, prog)
      | Some entry \<Rightarrow>
          if \<not> force \<and> \<not> accepted response then Inr (False, state, prog)
          else
            (let completed = (if stage \<notin> set (completed_stages state)
                              then completed_stages state @ [stage]
                              else completed_stages state);
                 stage_order = get_stage_order (project_mode state)
             in case progress_percent (length completed) (length stage_order) of
                  Inl e \<Rightarrow> Inl e
                | Inr percentage \<Rightarrow>
                    Inr (True,
                         save_current_state now
                           (state\<lparr>completed_stages := completed,
                                  progress_percentage := percentage\<rparr>),
                         prog(stage \<mapsto> entry\<lparr>entry_status := ''completed'',
                                                   entry_progress := 100,
                                                   entry_last_updated := Some now\<rparr>))))"

text \<open>The loop of \<open>reset_stage\<close> over the stages after the target.\<close>

fun reset_following_stages :: "string list \<Rightarrow> stage_progress \<Rightarrow> stage_progress" where
  "reset_following_stages [] prog = prog"
| "reset_following_stages (stage # rest) prog =
     reset_following_stages rest
       (case prog stage of
          None \<Rightarrow> prog
        | Some entry \<Rightarrow> prog(stage \<mapsto> entry\<lparr>entry_status := ''pending'',
                                                 entry_progress := 0,
                                                 entry_last_updated := None\<rparr>))"

text \<open>
  The comprehension that keeps the completed stages placed before the target;
  \<open>stage_order.index\<close> raises for a completed stage that is not in the stage order.
\<close>

fun completed_before :: "string list \<Rightarrow> nat \<Rightarrow> string list \<Rightarrow> error + string list" where
  "completed_before stage_order target_index [] = Inr []"
| "completed_before stage_order target_index (s # rest) =
     (case list_index stage_order s of
        None \<Rightarrow> Inl ValueError
      | Some i \<Rightarrow>
          (case completed_before stage_order target_index rest of
             Inl e \<Rightarrow> Inl e
           | Inr kept \<Rightarrow> Inr (if i < target_index then s # kept else kept)))"

definition reset_stage ::
  "timestamp \<Rightarrow> bool \<Rightarrow> string \<Rightarrow> flow_document \<Rightarrow> stage_progress \<Rightarrow> string
     \<Rightarrow> error + bool \<times> flow_document \<times> stage_progress" where
  "reset_stage now force response state prog target_stage =
     (let stage_order = get_stage_order (project_mode state) in
      case list_index stage_order target_stage of
        None \<Rightarrow> Inr (False, state, prog)
      | Some target_index \<Rightarrow>
          if \<not> force \<and> \<not> accepted response then Inr (False, state, prog)
          else
            (case completed_before stage_order target_index (completed_stages state) of
               Inl e \<Rightarrow> Inl e
             | Inr completed \<Rightarrow>
                 (case progress_percent (length completed) (length stage_order) of
                    Inl e \<Rightarrow> Inl e
                  | Inr percentage \<Rightarrow>
                      Inr (True,
                           save_current_state now
                             (state\<lparr>flow_current_stage := target_stage,
                                    flow_next_stage :=
                                      (if target_index + 1 < length stage_order
                                       then Some (stage_order ! (target_index + 1)) else None),
                                    completed_stages := completed,
                                    progress_percentage := percentage\<rparr>),
                           reset_following_stages (drop (target_index + 1) stage_order)
                             prog))))"

section \<open>The multi-mode state engine (core/multi_mode_state_engine.py)\<close>

datatype StageStatus = PENDING | IN_PROGRESS | COMPLETED | BLOCKED | SKIPPED

text \<open>The enum's \<open>.value\<close>, and the constructor \<open>StageStatus(s)\<close>, which raises on any other string.\<close>

fun status_value :: "StageStatus \<Rightarrow> string" where
  "status_value PENDING = ''pending''"
| "status_value IN_PROGRESS = ''in_progress''"
| "status_value COMPLETED = ''completed''"
| "status_value BLOCKED = ''blocked''"
| "status_value SKIPPED = ''skipped''"

definition StageStatus_of :: "string \<Rightarrow> StageStatus option" where
  "StageStatus_of s =
     (if s = ''pending'' then Some PENDING
      else if s = ''in_progress'' then Some IN_PROGRESS
      else if s = ''completed'' then Some COMPLETED
      else if s = ''blocked'' then Some BLOCKED
      else if s = ''skipped'' then Some SKIPPED
      else None)"

text \<open>The dataclass \<open>StageInfo\<close>, read from the flow-mode configuration.\<close>

record StageInfo =
  si_id :: string
  si_name :: string
  si_display_name :: string
  si_description :: string
  si_duration_estimate :: string
  si_deliverables :: "string list"
  si_next_stage :: "string option"
  si_dependencies :: "string list"

text \<open>
  One entry of \<open>state['stage_states']\<close>: a dictionary whose keys are all optional.
  \<open>None\<close> stands for an absent key. The engine writes every key with a value, except
  \<open>assignee\<close>, which \<open>start_stage\<close> may write as \<open>None\<close> next to a status; a
  key holding \<open>None\<close> is identified with the absent key.
\<close>

record stage_state_data =
  ss_status :: "string option"
  ss_progress :: "int option"
  ss_start_time :: "timestamp option"
  ss_end_time :: "timestamp option"
  ss_assignee :: "string option"
  ss_notes :: "string list option"
  ss_deliverables_status :: "(string \<rightharpoonup> bool) option"

definition empty_dict :: stage_state_data where
  "empty_dict =
     \<lparr>ss_status = None, ss_progress = None, ss_start_time = None, ss_end_time = None,
      ss_assignee = None, ss_notes = None, ss_deliverables_status = None\<rparr>"


text \<open>
  The engine's \<open>self.state\<close>. A missing \<open>stage_states\<close> key reads as the empty
  dictionary everywhere, so the field is the map itself.
\<close>

record mm_state =
  flow_mode :: string
  mm_current_stage :: "string option"
  stage_states :: "string \<rightharpoonup> stage_state_data"
  metadata_last_updated :: timestamp

text \<open>The dataclass \<open>StageState\<close> that \<open>get_stage_state\<close> builds, with its defaults.\<close>

record StageState =
  sst_stage_id :: string
  sst_status :: StageStatus
  sst_progress :: int
  sst_start_time :: "timestamp option"
  sst_end_time :: "timestamp option"
  sst_assignee :: "string option"
  sst_notes :: "string list"
  sst_deliverables_status :: "string \<rightharpoonup> bool"

definition save_mm_state :: "timestamp \<Rightarrow> mm_state \<Rightarrow> mm_state" where
  "save_mm_state now state = state\<lparr>metadata_last_updated := now\<rparr>"

definition get_stage_state :: "mm_state \<Rightarrow> string \<Rightarrow> error + StageState" where
  "get_stage_state state stage_id =
     (let stage_state_data = (case stage_states state stage_id of None \<Rightarrow> empty_dict | Some d \<Rightarrow> d)
      in case StageStatus_of (case ss_status stage_state_data of
                                None \<Rightarrow> status_value PENDING | Some s \<Rightarrow> s) of
           None \<Rightarrow> Inl ValueError
         | Some status \<Rightarrow>
             Inr \<lparr>sst_stage_id = stage_id,
                  sst_status = status,
                  sst_progress = (case ss_progress stage_state_data of None \<Rightarrow> 0 | Some p \<Rightarrow> p),
                  sst_start_time = ss_start_time stage_state_data,
                  sst_end_time = ss_end_time stage_state_data,
                  sst_assignee = ss_assignee stage_state_data,
                  sst_notes = (case ss_notes stage_state_data of None \<Rightarrow> [] | Some n \<Rightarrow> n),
                  sst_deliverables_status =
                    (case ss_deliverables_status stage_state_data of
                       None \<Rightarrow> Map.empty | Some m \<Rightarrow> m)\<rparr>)"

text \<open>
  The keyword arguments of \<open>update_stage_state\<close>: \<open>None\<close> for an argument that is not
  passed. The assignee can be passed as \<open>None\<close>.
\<close>

record stage_kwargs =
  kw_status :: "StageStatus option"
  kw_start_time :: "timestamp option"
  kw_end_time :: "timestamp option"
  kw_assignee :: "string option option"
  kw_progress :: "int option"
  kw_notes :: "string list option"
  kw_deliverables_status :: "(string \<rightharpoonup> bool) option"

definition set_kwargs :: "stage_kwargs \<Rightarrow> stage_state_data \<Rightarrow> stage_state_data" where
  "set_kwargs kw d =
     \<lparr>ss_status = (case kw_status kw of None \<Rightarrow> ss_status d | Some s \<Rightarrow> Some (status_value s)),
      ss_progress = (case kw_progress kw of None \<Rightarrow> ss_progress d | Some p \<Rightarrow> Some p),
      ss_start_time = (case kw_start_time kw of None \<Rightarrow> ss_start_time d | Some t \<Rightarrow> Some t),
      ss_end_time = (case kw_end_time kw of None \<Rightarrow> ss_end_time d | Some t \<Rightarrow> Some t),
      ss_assignee = (case kw_assignee kw of None \<Rightarrow> ss_assignee d | Some a \<Rightarrow> a),
      ss_notes = (case kw_notes kw of None \<Rightarrow> ss_notes d | Some n \<Rightarrow> Some n),
      ss_deliverables_status =
        (case kw_deliverables_status kw of None \<Rightarrow> ss_deliverables_status d | Some m \<Rightarrow> Some m)\<rparr>"

definition update_stage_state ::
  "timestamp \<Rightarrow> mm_state \<Rightarrow> string \<Rightarrow> stage_kwargs \<Rightarrow> mm_state" where
  "update_stage_state now state stage_id kw =
     (let stage_state = set_kwargs kw
            (case stage_states state stage_id of None \<Rightarrow> empty_dict | Some d \<Rightarrow> d);
          stamped =
            (case kw_status kw of
               None \<Rightarrow> stage_state
             | Some s \<Rightarrow>
                 if s = IN_PROGRESS \<and> ss_start_time stage_state = None
                 then stage_state\<lparr>ss_start_time := Some now\<rparr>
                 else if s = COMPLETED
                 then stage_state\<lparr>ss_end_time := Some now, ss_progress := Some 100\<rparr>
                 else stage_state)
      in save_mm_state now (state\<lparr>stage_states := (stage_states state)(stage_id \<mapsto> stamped)\<rparr>))"

text \<open>
  \<open>_get_stage_info_by_id\<close>. The stage list of the current mode,
  \<open>get_stages_for_mode(self.current_mode)\<close>, is read from the flow-mode configuration
  and is a parameter here.
\<close>

definition get_stage_info_by_id :: "StageInfo list \<Rightarrow> string \<Rightarrow> StageInfo option" where
  "get_stage_info_by_id stages stage_id = find (\<lambda>stage. si_id stage = stage_id) stages"

text \<open>The loop of \<open>_check_dependencies\<close>: it stops at the first dependency that is not completed.\<close>

fun dependencies_completed :: "mm_state \<Rightarrow> string list \<Rightarrow> error + bool" where
  "dependencies_completed state [] = Inr True"
| "dependencies_completed state (dep_stage_id # rest) =
     (case get_stage_state state dep_stage_id of
        Inl e \<Rightarrow> Inl e
      | Inr dep_state \<Rightarrow>
          if sst_status dep_state \<noteq> COMPLETED then Inr False
          else dependencies_completed state rest)"

definition check_dependencies :: "StageInfo list \<Rightarrow> mm_state \<Rightarrow> string \<Rightarrow> error + bool" where
  "check_dependencies stages state stage_id =
     (case get_stage_info_by_id stages stage_id of
        None \<Rightarrow> Inr True
      | Some stage_info \<Rightarrow>
          if si_dependencies stage_info = [] then Inr True
          else dependencies_completed state (si_dependencies stage_info))"

text \<open>
  \<open>start_stage\<close> returns its boolean together with the engine state after the call.
\<close>

definition start_stage ::
  "StageInfo list \<Rightarrow> timestamp \<Rightarrow> mm_state \<Rightarrow> string \<Rightarrow> string option \<Rightarrow> error + bool \<times> mm_state" where
  "start_stage stages now state stage_id assignee =
     (case check_dependencies stages state stage_id of
        Inl e \<Rightarrow> Inl e
      | Inr False \<Rightarrow> Inr (False, state)
      | Inr True \<Rightarrow>
          (let state1 = update_stage_state now state stage_id
                 \<lparr>kw_status = Some IN_PROGRESS, kw_start_time = Some now, kw_end_time = None,
                  kw_assignee = Some assignee, kw_progress = None, kw_notes = None,
                  kw_deliverables_status = None\<rparr>
           in Inr (True, save_mm_state now (state1\<lparr>mm_current_stage := Some stage_id\<rparr>))))"





subsection \<open>Notions used to state the properties of the multi-mode engine\<close>

text \<open>The status that \<open>get_stage_state\<close> reports for a stage, when it reports one.\<close>

definition has_status :: "mm_state \<Rightarrow> string \<Rightarrow> StageStatus \<Rightarrow> bool" where
  "has_status state stage_id s =
     (case get_stage_state state stage_id of Inl e \<Rightarrow> False | Inr x \<Rightarrow> sst_status x = s)"






section \<open>Example states\<close>

text \<open>The plain engine after \<open>update_stage_progress('S1', 100)\<close> on the initial state.\<close>

definition example_S1_completed :: engine_state where
  "example_S1_completed =
     (initialize_state 0)\<lparr>current_stage := ''S2'',
        stage_status := (stage_status (initialize_state 0))
                          (''S1'' \<mapsto> ''completed'', ''S2'' \<mapsto> ''in_progress''),
        progress := (progress (initialize_state 0))(''S1'' \<mapsto> 100),
        last_updated := 1\<rparr>"

text \<open>The plain engine after S1 and then S2 were brought to 100: S3 is the current stage.\<close>

definition example_S2_completed :: engine_state where
  "example_S2_completed =
     (initialize_state 0)\<lparr>current_stage := ''S3'',
        stage_status := (stage_status (initialize_state 0))
                          (''S1'' \<mapsto> ''completed'', ''S2'' \<mapsto> ''completed'',
                           ''S3'' \<mapsto> ''in_progress''),
        progress := (progress (initialize_state 0))(''S1'' \<mapsto> 100, ''S2'' \<mapsto> 100),
        last_updated := 2\<rparr>"

text \<open>The same two steps in the enhanced engine.\<close>

definition example_enhanced_S1_completed :: enhanced_state where
  "example_enhanced_S1_completed =
     (initialize_state_enhanced 0)\<lparr>current_stage := ''S2'',
        stage_status := (stage_status (initialize_state_enhanced 0))
                          (''S1'' \<mapsto> ''completed'', ''S2'' \<mapsto> ''in_progress''),
        progress := (progress (initialize_state_enhanced 0))(''S1'' \<mapsto> 100),
        last_updated := 1\<rparr>"

definition example_enhanced_S2_completed :: enhanced_state where
  "example_enhanced_S2_completed =
     (initialize_state_enhanced 0)\<lparr>current_stage := ''S3'',
        stage_status := (stage_status (initialize_state_enhanced 0))
                          (''S1'' \<mapsto> ''completed'', ''S2'' \<mapsto> ''completed'',
                           ''S3'' \<mapsto> ''in_progress''),
        progress := (progress (initialize_state_enhanced 0))(''S1'' \<mapsto> 100, ''S2'' \<mapsto> 100),
        last_updated := 2\<rparr>"

text \<open>An iterations directory with one iteration that holds every required output.\<close>

definition example_iterations :: iterations_dir where
  "example_iterations =
     Some [map_of (map (\<lambda>(stage_id, d). (required_output d, 1)) stage_definitions_enhanced)]"

text \<open>The initial state with two unresolved abnormalities recorded for S1.\<close>

definition example_two_abnormalities :: engine_state where
  "example_two_abnormalities =
     (initialize_state 0)\<lparr>abnormalities :=
        [\<lparr>abn_id = ''ABN-1'', abn_stage_id = ''S1'', abn_description = ''first'',
          abn_severity = ''high'', abn_detected_at = 1, abn_status = ''unresolved''\<rparr>,
         \<lparr>abn_id = ''ABN-2'', abn_stage_id = ''S1'', abn_description = ''second'',
          abn_severity = ''medium'', abn_detected_at = 2, abn_status = ''unresolved''\<rparr>]\<rparr>"

text \<open>The last stage finished: S8 is current with progress 100.\<close>

definition example_S8_completed :: engine_state where
  "example_S8_completed =
     (initialize_state 0)\<lparr>current_stage := ''S8'',
        stage_status := (stage_status (initialize_state 0))(''S8'' \<mapsto> ''completed''),
        progress := (progress (initialize_state 0))(''S8'' \<mapsto> 100)\<rparr>"

text \<open>The same two situations in the enhanced engine.\<close>

definition example_enhanced_two_abnormalities :: enhanced_state where
  "example_enhanced_two_abnormalities =
     (initialize_state_enhanced 0)\<lparr>abnormalities :=
        [\<lparr>abn_id = ''ABN-1'', abn_stage_id = ''S1'', abn_description = ''first'',
          abn_severity = ''high'', abn_detected_at = 1, abn_status = ''unresolved''\<rparr>,
         \<lparr>abn_id = ''ABN-2'', abn_stage_id = ''S1'', abn_description = ''second'',
          abn_severity = ''medium'', abn_detected_at = 2, abn_status = ''unresolved''\<rparr>]\<rparr>"

definition example_enhanced_S8_completed :: enhanced_state where
  "example_enhanced_S8_completed =
     (initialize_state_enhanced 0)\<lparr>current_stage := ''S8'',
        stage_status := (stage_status (initialize_state_enhanced 0))(''S8'' \<mapsto> ''completed''),
        progress := (progress (initialize_state_enhanced 0))(''S8'' \<mapsto> 100)\<rparr>"

subsection \<open>Examples for the multi-mode engine\<close>

text \<open>A mode with three stages; the third depends on the first two.\<close>

definition example_stages :: "StageInfo list" where
  "example_stages =
     [\<lparr>si_id = ''a'', si_name = ''a'', si_display_name = ''A'', si_description = ''first'',
       si_duration_estimate = ''1d'', si_deliverables = [], si_next_stage = Some ''b'',
       si_dependencies = []\<rparr>,
      \<lparr>si_id = ''b'', si_name = ''b'', si_display_name = ''B'', si_description = ''second'',
       si_duration_estimate = ''1d'', si_deliverables = [], si_next_stage = Some ''c'',
       si_dependencies = []\<rparr>,
      \<lparr>si_id = ''c'', si_name = ''c'', si_display_name = ''C'', si_description = ''third'',
       si_duration_estimate = ''1d'', si_deliverables = [], si_next_stage = None,
       si_dependencies = [''a'', ''b'']\<rparr>]"

definition example_dict :: "string \<Rightarrow> int \<Rightarrow> string list \<Rightarrow> stage_state_data" where
  "example_dict status p notes = empty_dict\<lparr>ss_status := Some status, ss_progress := Some p,
                                             ss_notes := Some notes\<rparr>"

text \<open>Stage a is completed and stage b is in progress: one dependency of c is unmet.\<close>

definition example_mm_one_unmet :: mm_state where
  "example_mm_one_unmet =
     \<lparr>flow_mode = ''standard'', mm_current_stage = Some ''b'',
      stage_states = [''a'' \<mapsto> example_dict ''completed'' 100 [''done a''],
                      ''b'' \<mapsto> example_dict ''in_progress'' 50 [''half b'']],
      metadata_last_updated = 0\<rparr>"

text \<open>Both dependencies of c are completed.\<close>

definition example_mm_all_met :: mm_state where
  "example_mm_all_met =
     \<lparr>flow_mode = ''standard'', mm_current_stage = Some ''c'',
      stage_states = [''a'' \<mapsto> example_dict ''completed'' 100 [''done a''],
                      ''b'' \<mapsto> example_dict ''completed'' 100 [''done b'']],
      metadata_last_updated = 0\<rparr>"



subsection \<open>Examples for the stage manager\<close>

text \<open>
  A project in minimal mode after \<open>complete analysis\<close>, \<open>next\<close>, \<open>complete planning\<close>
  and \<open>next\<close>: analysis and planning are completed and implementation is current.
\<close>

definition example_flow :: flow_document where
  "example_flow =
     \<lparr>project_mode = ''minimal'', project_last_updated = 4,
      flow_current_stage = ''implementation'',
      completed_stages = [''analysis'', ''planning''],
      flow_next_stage = Some ''validation'', progress_percentage = 50\<rparr>"

definition example_progress :: stage_progress where
  "example_progress =
     [''analysis'' \<mapsto> \<lparr>entry_status = ''completed'', entry_progress = 100,
                        entry_last_updated = Some 1\<rparr>,
      ''planning'' \<mapsto> \<lparr>entry_status = ''completed'', entry_progress = 100,
                        entry_last_updated = Some 3\<rparr>,
      ''implementation'' \<mapsto> \<lparr>entry_status = ''in_progress'', entry_progress = 0,
                              entry_last_updated = Some 4\<rparr>,
      ''validation'' \<mapsto> \<lparr>entry_status = ''pending'', entry_progress = 0,
                          entry_last_updated = None\<rparr>]"

section \<open>Properties of the state engines\<close>

lemma example_S1_completed_reached:
  "update_stage_progress 1 (initialize_state 0) ''S1'' 100 None = Inr example_S1_completed"
  by (simp add: update_stage_progress_def example_S1_completed_def initialize_state_def
      stage_definitions_def save_state_def extend_memory_ids_def Let_def)

lemma example_S2_completed_reached:
  "update_stage_progress 2 example_S1_completed ''S2'' 100 None = Inr example_S2_completed"
  by (simp add: update_stage_progress_def example_S1_completed_def example_S2_completed_def
      initialize_state_def stage_definitions_def save_state_def extend_memory_ids_def Let_def
      fun_upd_twist)

lemma example_iterations_valid:
  "map_of stage_definitions_enhanced sid \<noteq> None
   \<Longrightarrow> validate_stage_output example_iterations sid = Inr True"
  by (auto simp: validate_stage_output_def example_iterations_def stage_definitions_enhanced_def
      split: if_splits)

lemma example_enhanced_S1_completed_reached:
  "update_stage_progress_enhanced example_iterations 1 (initialize_state_enhanced 0) ''S1'' 100 None
   = Inr example_enhanced_S1_completed"
  by (simp add: update_stage_progress_enhanced_def example_enhanced_S1_completed_def
      initialize_state_enhanced_def validate_stage_output_def example_iterations_def
      stage_definitions_enhanced_def save_state_def extend_memory_ids_def Let_def)

lemma example_enhanced_S2_completed_reached:
  "update_stage_progress_enhanced example_iterations 2 example_enhanced_S1_completed ''S2'' 100 None
   = Inr example_enhanced_S2_completed"
  by (simp add: update_stage_progress_enhanced_def example_enhanced_S1_completed_def
      example_enhanced_S2_completed_def initialize_state_enhanced_def validate_stage_output_def
      example_iterations_def stage_definitions_enhanced_def save_state_def extend_memory_ids_def
      Let_def fun_upd_twist)

lemma next_stage_differs:
  "map_of stage_definitions sid = Some nxt \<Longrightarrow> truthy nxt \<Longrightarrow> the nxt \<noteq> sid"
  by (auto simp: stage_definitions_def split: if_splits)


subsection \<open>Progress updates retarget the current stage\<close>

text \<open>
  Claim C10. For every stage id with an entry in the progress dictionary and every
  progress value below 100, \<open>update_stage_progress\<close> succeeds, makes that stage the
  current stage, sets its status to \<open>in_progress\<close> and stores the progress value. This
  holds in the plain and in the enhanced engine, in every state: whatever the current
  stage was and whatever the status of the stage's dependencies is, since no dependency
  check is made on this path.
\<close>

theorem update_stage_progress_retargets_current_stage:
  assumes "p < 100"
  shows "(progress st sid \<noteq> None \<longrightarrow>
           (\<exists>st'. update_stage_progress now st sid p mem = Inr st' \<and> current_stage st' = sid
                 \<and> stage_status st' sid = Some ''in_progress'' \<and> progress st' sid = Some p))
       \<and> (progress est sid \<noteq> None \<longrightarrow>
           (\<exists>est'. update_stage_progress_enhanced fs now est sid p mem = Inr est'
                 \<and> current_stage est' = sid
                 \<and> stage_status est' sid = Some ''in_progress'' \<and> progress est' sid = Some p))"
  using assms
  by (auto simp: update_stage_progress_def update_stage_progress_enhanced_def save_state_def
      extend_memory_ids_def Let_def split: option.splits)

text \<open>
  In the initial state S1 is current and S2, the dependency of S3, has not started; an
  update of S3 to 40 makes S3 the current stage in both engines.
\<close>

theorem update_stage_progress_retargets_current_stage_witness:
  "(40::int) < 100
   \<and> current_stage (initialize_state 0) = ''S1''
   \<and> stage_status (initialize_state 0) ''S2'' = Some ''not_started''
   \<and> progress (initialize_state 0) ''S3'' \<noteq> None
   \<and> (\<exists>st'. update_stage_progress 5 (initialize_state 0) ''S3'' 40 None = Inr st'
         \<and> current_stage st' = ''S3'' \<and> stage_status st' ''S3'' = Some ''in_progress''
         \<and> progress st' ''S3'' = Some 40)
   \<and> stage_status (initialize_state_enhanced 0) ''S2'' = Some ''not_started''
   \<and> progress (initialize_state_enhanced 0) ''S3'' \<noteq> None
   \<and> (\<exists>est'. update_stage_progress_enhanced None 5 (initialize_state_enhanced 0) ''S3'' 40 None
                = Inr est'
         \<and> current_stage est' = ''S3'' \<and> stage_status est' ''S3'' = Some ''in_progress''
         \<and> progress est' ''S3'' = Some 40)"
  using update_stage_progress_retargets_current_stage
          [of 40 "initialize_state 0" "''S3''" 5 None "initialize_state_enhanced 0" None]
  by (simp add: initialize_state_def initialize_state_enhanced_def stage_definitions_def
      stage_definitions_enhanced_def)

subsection \<open>Lowering the progress of a completed stage\<close>

text \<open>
  Claim C3 as stated fails: in the state reached by completing S1, an update of S1 to 50
  does not fail; S1 is back to \<open>in_progress\<close> with progress 50.
\<close>

theorem regress_completed_stage_counterexample:
  "stage_status example_S1_completed ''S1'' = Some ''completed''
   \<and> progress example_S1_completed ''S1'' = Some 100
   \<and> \<not> isl (update_stage_progress 2 example_S1_completed ''S1'' 50 None)
   \<and> stage_status (projr (update_stage_progress 2 example_S1_completed ''S1'' 50 None)) ''S1''
       = Some ''in_progress''
   \<and> progress (projr (update_stage_progress 2 example_S1_completed ''S1'' 50 None)) ''S1''
       = Some 50"
  by (simp add: update_stage_progress_def example_S1_completed_def initialize_state_def
      stage_definitions_def save_state_def extend_memory_ids_def Let_def)

text \<open>
  Claim C3, amended. For every stage whose status is \<open>completed\<close> (and that has a progress
  entry), \<open>update_stage_progress\<close> with a progress value below 100 succeeds in both
  engines: the stage becomes \<open>in_progress\<close> with the given progress, it becomes the
  current stage, and the saved state differs from the one before. Completion is not
  monotonic, and no error is raised.
\<close>

theorem regress_completed_stage_succeeds:
  assumes "p < 100"
    and "stage_status st sid = Some ''completed''" and "progress st sid \<noteq> None"
    and "stage_status est sid = Some ''completed''" and "progress est sid \<noteq> None"
  shows "(\<exists>st'. update_stage_progress now st sid p mem = Inr st'
            \<and> stage_status st' sid = Some ''in_progress'' \<and> progress st' sid = Some p
            \<and> current_stage st' = sid \<and> last_updated st' = now \<and> st' \<noteq> st)
       \<and> (\<exists>est'. update_stage_progress_enhanced fs now est sid p mem = Inr est'
            \<and> stage_status est' sid = Some ''in_progress'' \<and> progress est' sid = Some p
            \<and> current_stage est' = sid \<and> last_updated est' = now \<and> est' \<noteq> est)"
proof -
  have "\<exists>st'. update_stage_progress now st sid p mem = Inr st'
            \<and> stage_status st' sid = Some ''in_progress'' \<and> progress st' sid = Some p
            \<and> current_stage st' = sid \<and> last_updated st' = now"
    using assms(1,3)
    by (auto simp: update_stage_progress_def save_state_def extend_memory_ids_def Let_def
        split: option.splits)
  then obtain st' where st': "update_stage_progress now st sid p mem = Inr st'"
    "stage_status st' sid = Some ''in_progress''" "progress st' sid = Some p"
    "current_stage st' = sid" "last_updated st' = now"
    by blast
  from st'(2) assms(2) have "st' \<noteq> st" by auto
  with st' have plain: "\<exists>st'. update_stage_progress now st sid p mem = Inr st'
            \<and> stage_status st' sid = Some ''in_progress'' \<and> progress st' sid = Some p
            \<and> current_stage st' = sid \<and> last_updated st' = now \<and> st' \<noteq> st"
    by blast
  have "\<exists>est'. update_stage_progress_enhanced fs now est sid p mem = Inr est'
            \<and> stage_status est' sid = Some ''in_progress'' \<and> progress est' sid = Some p
            \<and> current_stage est' = sid \<and> last_updated est' = now"
    using assms(1,5)
    by (auto simp: update_stage_progress_enhanced_def save_state_def extend_memory_ids_def
        Let_def split: option.splits)
  then obtain est' where est': "update_stage_progress_enhanced fs now est sid p mem = Inr est'"
    "stage_status est' sid = Some ''in_progress''" "progress est' sid = Some p"
    "current_stage est' = sid" "last_updated est' = now"
    by blast
  from est'(2) assms(4) have "est' \<noteq> est" by auto
  with est' have "\<exists>est'. update_stage_progress_enhanced fs now est sid p mem = Inr est'
            \<and> stage_status est' sid = Some ''in_progress'' \<and> progress est' sid = Some p
            \<and> current_stage est' = sid \<and> last_updated est' = now \<and> est' \<noteq> est"
    by blast
  with plain show ?thesis by blast
qed

theorem regress_completed_stage_succeeds_witness:
  "(50::int) < 100
   \<and> stage_status example_S1_completed ''S1'' = Some ''completed''
   \<and> progress example_S1_completed ''S1'' \<noteq> None
   \<and> stage_status example_enhanced_S1_completed ''S1'' = Some ''completed''
   \<and> progress example_enhanced_S1_completed ''S1'' \<noteq> None
   \<and> (\<exists>st'. update_stage_progress 2 example_S1_completed ''S1'' 50 None = Inr st'
         \<and> stage_status st' ''S1'' = Some ''in_progress'' \<and> progress st' ''S1'' = Some 50
         \<and> current_stage st' = ''S1'' \<and> last_updated st' = 2 \<and> st' \<noteq> example_S1_completed)
   \<and> (\<exists>est'. update_stage_progress_enhanced None 2 example_enhanced_S1_completed ''S1'' 50 None
                = Inr est'
         \<and> stage_status est' ''S1'' = Some ''in_progress'' \<and> progress est' ''S1'' = Some 50
         \<and> current_stage est' = ''S1'' \<and> last_updated est' = 2
         \<and> est' \<noteq> example_enhanced_S1_completed)"
proof -
  have h: "(50::int) < 100"
    "stage_status example_S1_completed ''S1'' = Some ''completed''"
    "progress example_S1_completed ''S1'' \<noteq> None"
    "stage_status example_enhanced_S1_completed ''S1'' = Some ''completed''"
    "progress example_enhanced_S1_completed ''S1'' \<noteq> None"
    by (simp_all add: example_S1_completed_def example_enhanced_S1_completed_def
        initialize_state_def initialize_state_enhanced_def stage_definitions_def
        stage_definitions_enhanced_def)
  from regress_completed_stage_succeeds [OF h, of 2 None None] h show ?thesis
    by simp
qed

subsection \<open>Progress values outside 0..100\<close>




subsection \<open>Navigation suggestions\<close>

text \<open>
  Claim C8 as stated fails: with two unresolved abnormalities recorded for the current
  stage, the query returns two suggestions, not exactly one.
\<close>

theorem navigation_two_abnormalities_counterexample:
  "current_stage example_two_abnormalities = ''S1''
   \<and> length (unresolved_for ''S1'' (abnormalities example_two_abnormalities)) = 2
   \<and> \<not> isl (get_navigation_suggestion example_two_abnormalities)
   \<and> length (projr (get_navigation_suggestion example_two_abnormalities)) = 2"
  by (simp add: get_navigation_suggestion_def example_two_abnormalities_def unresolved_for_def
      initialize_state_def Let_def)

text \<open>
  Claim C8, amended. The navigation query is a function of the state alone (it returns
  no state). Whenever at least one unresolved abnormality exists for the current stage,
  it returns one suggestion of type abnormality for each of them, in recorded order, and
  nothing else, whatever the progress of the current stage is. Whenever there is none,
  the current stage has progress 100 or more and its definition has no next stage, it
  returns the empty list. Both engines agree on this.
\<close>

theorem navigation_suggestions:
  "(unresolved_for (current_stage st) (abnormalities st) \<noteq> [] \<longrightarrow>
      (\<exists>sugs. get_navigation_suggestion st = Inr sugs
         \<and> sugs = map abnormality_suggestion (unresolved_for (current_stage st) (abnormalities st))
         \<and> length sugs = length (unresolved_for (current_stage st) (abnormalities st))
         \<and> sugs \<noteq> []
         \<and> (\<forall>s \<in> set sugs. suggestion_type s = ''abnormality'')))
   \<and> (unresolved_for (current_stage st) (abnormalities st) = []
        \<and> progress st (current_stage st) = Some p \<and> 100 \<le> p
        \<and> map_of stage_definitions (current_stage st) = Some None \<longrightarrow>
      get_navigation_suggestion st = Inr [])
   \<and> (unresolved_for (current_stage est) (abnormalities est) \<noteq> [] \<longrightarrow>
      (\<exists>sugs. get_navigation_suggestion_enhanced est = Inr sugs
         \<and> sugs = map abnormality_suggestion (unresolved_for (current_stage est) (abnormalities est))
         \<and> length sugs = length (unresolved_for (current_stage est) (abnormalities est))
         \<and> sugs \<noteq> []
         \<and> (\<forall>s \<in> set sugs. suggestion_type s = ''abnormality'')))
   \<and> (unresolved_for (current_stage est) (abnormalities est) = []
        \<and> progress est (current_stage est) = Some q \<and> 100 \<le> q
        \<and> map_of stage_definitions_enhanced (current_stage est) = Some d \<and> next_stage d = None \<longrightarrow>
      get_navigation_suggestion_enhanced est = Inr [])"
  by (auto simp: get_navigation_suggestion_def get_navigation_suggestion_enhanced_def Let_def
      abnormality_suggestion_def)

theorem navigation_suggestions_witness:
  "unresolved_for (current_stage example_two_abnormalities)
       (abnormalities example_two_abnormalities) \<noteq> []
   \<and> get_navigation_suggestion example_two_abnormalities
       = Inr [AbnormalitySuggestion ''high'' ''first'' ''ABN-1'',
              AbnormalitySuggestion ''medium'' ''second'' ''ABN-2'']
   \<and> unresolved_for (current_stage example_S8_completed) (abnormalities example_S8_completed) = []
   \<and> progress example_S8_completed (current_stage example_S8_completed) = Some 100
   \<and> map_of stage_definitions (current_stage example_S8_completed) = Some None
   \<and> get_navigation_suggestion example_S8_completed = Inr []
   \<and> unresolved_for (current_stage example_enhanced_two_abnormalities)
       (abnormalities example_enhanced_two_abnormalities) \<noteq> []
   \<and> get_navigation_suggestion_enhanced example_enhanced_two_abnormalities
       = Inr [AbnormalitySuggestion ''high'' ''first'' ''ABN-1'',
              AbnormalitySuggestion ''medium'' ''second'' ''ABN-2'']
   \<and> unresolved_for (current_stage example_enhanced_S8_completed)
       (abnormalities example_enhanced_S8_completed) = []
   \<and> progress example_enhanced_S8_completed (current_stage example_enhanced_S8_completed)
       = Some 100
   \<and> map_of (map (\<lambda>(k, d). (k, next_stage d)) stage_definitions_enhanced)
        (current_stage example_enhanced_S8_completed) = Some None
   \<and> get_navigation_suggestion_enhanced example_enhanced_S8_completed = Inr []"
proof -
  let ?d = "\<lparr>next_stage = None, required_output = ''s8_summary.md'', dependencies = [''S7'']\<rparr>"
  have one: "unresolved_for (current_stage example_two_abnormalities)
       (abnormalities example_two_abnormalities)
     = abnormalities example_two_abnormalities"
    "unresolved_for (current_stage example_enhanced_two_abnormalities)
       (abnormalities example_enhanced_two_abnormalities)
     = abnormalities example_enhanced_two_abnormalities"
    by (simp_all add: unresolved_for_def example_two_abnormalities_def
        example_enhanced_two_abnormalities_def initialize_state_def initialize_state_enhanced_def)
  have two: "unresolved_for (current_stage example_S8_completed)
       (abnormalities example_S8_completed) = []"
    "progress example_S8_completed (current_stage example_S8_completed) = Some 100"
    "map_of stage_definitions (current_stage example_S8_completed) = Some None"
    "unresolved_for (current_stage example_enhanced_S8_completed)
       (abnormalities example_enhanced_S8_completed) = []"
    "progress example_enhanced_S8_completed (current_stage example_enhanced_S8_completed)
       = Some 100"
    "map_of stage_definitions_enhanced (current_stage example_enhanced_S8_completed) = Some ?d"
    by (simp_all add: unresolved_for_def example_S8_completed_def
        example_enhanced_S8_completed_def initialize_state_def initialize_state_enhanced_def
        stage_definitions_def stage_definitions_enhanced_def)
  have three: "map_of (map (\<lambda>(k, d). (k, next_stage d)) stage_definitions_enhanced)
        (current_stage example_enhanced_S8_completed) = Some None"
    by (simp add: example_enhanced_S8_completed_def initialize_state_enhanced_def
        stage_definitions_enhanced_def)
  have abns: "map abnormality_suggestion (abnormalities example_two_abnormalities)
       = [AbnormalitySuggestion ''high'' ''first'' ''ABN-1'',
          AbnormalitySuggestion ''medium'' ''second'' ''ABN-2'']"
    "map abnormality_suggestion (abnormalities example_enhanced_two_abnormalities)
       = [AbnormalitySuggestion ''high'' ''first'' ''ABN-1'',
          AbnormalitySuggestion ''medium'' ''second'' ''ABN-2'']"
    "abnormalities example_two_abnormalities \<noteq> []"
    "abnormalities example_enhanced_two_abnormalities \<noteq> []"
    by (simp_all add: abnormality_suggestion_def example_two_abnormalities_def
        example_enhanced_two_abnormalities_def)
  from navigation_suggestions [where st = example_two_abnormalities
      and est = example_enhanced_two_abnormalities and p = 100 and q = 100 and d = ?d]
    navigation_suggestions [where st = example_S8_completed
      and est = example_enhanced_S8_completed and p = 100 and q = 100 and d = ?d]
    one two three abns
  show ?thesis by simp
qed

subsection \<open>Reverting to an earlier stage\<close>

lemma list_index_bound: "list_index xs t = Some i \<Longrightarrow> i < length xs \<and> xs ! i = t"
  by (induction xs arbitrary: i) (auto split: if_splits)








section \<open>Properties of the multi-mode engine\<close>

subsection \<open>The dependency gate of \<open>start_stage\<close>\<close>

lemma dependencies_completed_all:
  "list_all (\<lambda>d. has_status st d COMPLETED) deps \<Longrightarrow> dependencies_completed st deps = Inr True"
  by (induction deps) (auto simp: has_status_def split: sum.splits)

lemma dependencies_completed_unmet:
  "\<not> list_all (\<lambda>d. has_status st d COMPLETED) deps
   \<Longrightarrow> dependencies_completed st deps = Inr False \<or> dependencies_completed st deps = Inl ValueError"
proof (induction deps)
  case Nil
  then show ?case by simp
next
  case (Cons d ds)
  show ?case
  proof (cases "get_stage_state st d")
    case (Inl e)
    then have "e = ValueError"
      by (auto simp: get_stage_state_def Let_def split: option.splits)
    with Inl show ?thesis by simp
  next
    case (Inr x)
    with Cons show ?thesis by (auto simp: has_status_def)
  qed
qed

lemma dependencies_completed_unmet_readable:
  "\<not> list_all (\<lambda>d. has_status st d COMPLETED) deps
   \<Longrightarrow> list_all (\<lambda>d. \<not> isl (get_stage_state st d)) deps
   \<Longrightarrow> dependencies_completed st deps = Inr False"
  by (induction deps) (auto simp: has_status_def split: sum.splits)

lemma has_status_after_update:
  "ss_status d = Some ''in_progress''
   \<Longrightarrow> has_status (st\<lparr>stage_states := (stage_states st)(sid \<mapsto> d)\<rparr>) sid IN_PROGRESS"
  by (simp add: has_status_def get_stage_state_def StageStatus_of_def)

text \<open>
  Claim C4. For a stage of the current mode, \<open>start_stage\<close> succeeds when every
  declared dependency has the status COMPLETED: the stage is then IN_PROGRESS and it is the
  current stage. When at least one declared dependency, whichever it is, does not have the
  status COMPLETED, the call fails and the state is not touched: it returns \<open>False\<close>
  with the state as it was (the engine's form of the dependency failure), or, when a stored
  status is not a value of the enumeration, the status lookup raises before anything is
  written. With readable statuses the result is always \<open>False\<close> with the unchanged
  state.
\<close>

theorem start_stage_dependency_gate:
  assumes "get_stage_info_by_id stages sid = Some info"
  shows "(list_all (\<lambda>d. has_status st d COMPLETED) (si_dependencies info) \<longrightarrow>
            (\<exists>st'. start_stage stages now st sid assignee = Inr (True, st')
               \<and> has_status st' sid IN_PROGRESS \<and> mm_current_stage st' = Some sid))
       \<and> (\<not> list_all (\<lambda>d. has_status st d COMPLETED) (si_dependencies info) \<longrightarrow>
            start_stage stages now st sid assignee = Inr (False, st)
            \<or> start_stage stages now st sid assignee = Inl ValueError)
       \<and> (\<not> list_all (\<lambda>d. has_status st d COMPLETED) (si_dependencies info)
          \<and> list_all (\<lambda>d. \<not> isl (get_stage_state st d)) (si_dependencies info) \<longrightarrow>
            start_stage stages now st sid assignee = Inr (False, st))"
proof (intro conjI impI)
  assume all: "list_all (\<lambda>d. has_status st d COMPLETED) (si_dependencies info)"
  have "check_dependencies stages st sid = Inr True"
    using assms dependencies_completed_all [OF all] by (simp add: check_dependencies_def)
  then show "\<exists>st'. start_stage stages now st sid assignee = Inr (True, st')
               \<and> has_status st' sid IN_PROGRESS \<and> mm_current_stage st' = Some sid"
    by (simp add: start_stage_def update_stage_state_def save_mm_state_def set_kwargs_def
        Let_def has_status_def get_stage_state_def StageStatus_of_def)
next
  assume unmet: "\<not> list_all (\<lambda>d. has_status st d COMPLETED) (si_dependencies info)"
  then have ne: "si_dependencies info \<noteq> []" by auto
  from dependencies_completed_unmet [OF unmet]
  show "start_stage stages now st sid assignee = Inr (False, st)
        \<or> start_stage stages now st sid assignee = Inl ValueError"
    using assms ne by (auto simp: start_stage_def check_dependencies_def)
next
  assume "\<not> list_all (\<lambda>d. has_status st d COMPLETED) (si_dependencies info)
          \<and> list_all (\<lambda>d. \<not> isl (get_stage_state st d)) (si_dependencies info)"
  then have unmet: "\<not> list_all (\<lambda>d. has_status st d COMPLETED) (si_dependencies info)"
    and rd: "list_all (\<lambda>d. \<not> isl (get_stage_state st d)) (si_dependencies info)"
    by blast+
  from unmet have ne: "si_dependencies info \<noteq> []" by auto
  from dependencies_completed_unmet_readable [OF unmet rd]
  show "start_stage stages now st sid assignee = Inr (False, st)"
    using assms ne by (simp add: start_stage_def check_dependencies_def)
qed


theorem start_stage_dependency_gate_witness:
  "get_stage_info_by_id example_stages ''c'' = Some (example_stages ! 2)
   \<and> si_dependencies (example_stages ! 2) = [''a'', ''b'']
   \<and> has_status example_mm_one_unmet ''a'' COMPLETED
   \<and> \<not> has_status example_mm_one_unmet ''b'' COMPLETED
   \<and> start_stage example_stages 3 example_mm_one_unmet ''c'' None
       = Inr (False, example_mm_one_unmet)
   \<and> has_status example_mm_all_met ''a'' COMPLETED
   \<and> has_status example_mm_all_met ''b'' COMPLETED
   \<and> (\<exists>st'. start_stage example_stages 3 example_mm_all_met ''c'' None = Inr (True, st')
         \<and> has_status st' ''c'' IN_PROGRESS \<and> mm_current_stage st' = Some ''c'')"
proof -
  have info: "get_stage_info_by_id example_stages ''c'' = Some (example_stages ! 2)"
    by (simp add: get_stage_info_by_id_def example_stages_def)
  have deps: "si_dependencies (example_stages ! 2) = [''a'', ''b'']"
    by (simp add: example_stages_def)
  have unmet: "has_status example_mm_one_unmet ''a'' COMPLETED"
    "\<not> has_status example_mm_one_unmet ''b'' COMPLETED"
    "\<not> isl (get_stage_state example_mm_one_unmet ''a'')"
    "\<not> isl (get_stage_state example_mm_one_unmet ''b'')"
    by (simp_all add: has_status_def get_stage_state_def example_mm_one_unmet_def
        example_dict_def empty_dict_def StageStatus_of_def)
  have met: "has_status example_mm_all_met ''a'' COMPLETED"
    "has_status example_mm_all_met ''b'' COMPLETED"
    by (simp_all add: has_status_def get_stage_state_def example_mm_all_met_def
        example_dict_def empty_dict_def StageStatus_of_def)
  from start_stage_dependency_gate [OF info, of example_mm_one_unmet 3 None]
    start_stage_dependency_gate [OF info, of example_mm_all_met 3 None]
    info deps unmet met
  show ?thesis by simp
qed

subsection \<open>Merging stage states\<close>


















section \<open>Properties of the stage manager\<close>

subsection \<open>The float computation of the percentage\<close>

text \<open>
  Rounding to a double is exact on \<open>k * 2^j\<close> for \<open>k < 2^53\<close>, and its relative
  error is at most \<open>2^-53\<close>. For the stage counts of the four modes (4, 6 and 8) the
  float expression is therefore the floor of \<open>100 * c / t\<close>. It is not for every
  count: \<open>int((29 / 100) * 100)\<close> is 28.
\<close>

lemma round_half_even_of_int: "round_half_even (of_int n) = n"
  by (simp add: round_half_even_def)

lemma round_half_even_error: "\<bar>of_int (round_half_even x) - x\<bar> \<le> 1 / 2"
proof -
  have "of_int \<lfloor>x\<rfloor> \<le> x" "x < of_int \<lfloor>x\<rfloor> + 1"
    by linarith+
  then show ?thesis
    by (auto simp: round_half_even_def Let_def)
qed

lemma two_powi_nat: "0 \<le> k \<Longrightarrow> (2::rat) powi k = of_int (2 ^ nat k)"
  by (simp add: power_int_nonneg_exp)

lemma binary_exponent_bounds:
  assumes "0 < x"
  shows "2 powi (binary_exponent x) \<le> x \<and> x < 2 powi (binary_exponent x + 1)"
proof -
  obtain a b where ab: "quotient_of x = (a, b)" by (cases "quotient_of x")
  then have b: "0 < b" and x: "x = of_int a / of_int b"
    by (simp_all add: quotient_of_denom_pos quotient_of_div)
  with assms have a: "0 < a" by (simp add: zero_less_divide_iff)
  define la lb where "la = bitlen a" and "lb = bitlen b"
  have la: "1 \<le> la" and lb: "1 \<le> lb"
    using a b bitlen_eq_zero_iff [of a] bitlen_eq_zero_iff [of b] bitlen_nonneg [of a]
      bitlen_nonneg [of b]
    by (auto simp: la_def lb_def)
  from bitlen_bounds [OF a] have "2 ^ nat (la - 1) \<le> a" "a < 2 ^ nat la"
    by (simp_all add: la_def)
  then have "(of_int (2 ^ nat (la - 1)) :: rat) \<le> of_int a" "(of_int a :: rat) < of_int (2 ^ nat la)"
    by (simp_all only: of_int_le_iff of_int_less_iff)
  with la have a1: "2 powi (la - 1) \<le> (of_int a :: rat)" and a2: "(of_int a :: rat) < 2 powi la"
    by (simp_all add: two_powi_nat)
  from bitlen_bounds [OF b] have "2 ^ nat (lb - 1) \<le> b" "b < 2 ^ nat lb"
    by (simp_all add: lb_def)
  then have "(of_int (2 ^ nat (lb - 1)) :: rat) \<le> of_int b" "(of_int b :: rat) < of_int (2 ^ nat lb)"
    by (simp_all only: of_int_le_iff of_int_less_iff)
  with lb have b1: "2 powi (lb - 1) \<le> (of_int b :: rat)" and b2: "(of_int b :: rat) < 2 powi lb"
    by (simp_all add: two_powi_nat)
  have bpos: "(0::rat) < of_int b" using b by simp
  have apos: "(0::rat) < of_int a" using a by simp
  have upper: "x < 2 powi (la - lb + 1)"
  proof -
    have "x < 2 powi la / of_int b"
      unfolding x using a2 bpos by (simp add: divide_strict_right_mono)
    also have "\<dots> \<le> 2 powi la / 2 powi (lb - 1)"
      using b1 bpos by (intro divide_left_mono mult_pos_pos) simp_all
    also have "\<dots> = 2 powi (la - (lb - 1))"
      by (simp add: power_int_diff)
    finally show ?thesis by (simp add: algebra_simps)
  qed
  have lower: "2 powi (la - lb - 1) < x"
  proof -
    have "(2::rat) powi (la - lb - 1) = 2 powi ((la - 1) - lb)"
      by (simp add: algebra_simps)
    also have "\<dots> = 2 powi (la - 1) / 2 powi lb"
      by (simp add: power_int_diff)
    also have "\<dots> < 2 powi (la - 1) / of_int b"
      using b2 bpos by (intro divide_strict_left_mono) simp_all
    also have "\<dots> \<le> x"
      unfolding x using a1 bpos by (simp add: divide_right_mono)
    finally show ?thesis .
  qed
  have be: "binary_exponent x = (if 2 powi (la - lb) \<le> x then la - lb else la - lb - 1)"
    by (simp add: binary_exponent_def ab la_def lb_def)
  show ?thesis
  proof (cases "2 powi (la - lb) \<le> x")
    case True
    with be upper show ?thesis by simp
  next
    case False
    with be lower show ?thesis by simp
  qed
qed

lemma round_double_error:
  assumes "0 < x"
  shows "\<bar>round_double x - x\<bar> \<le> x / 2 ^ 53"
proof -
  define e where "e = binary_exponent x"
  define u :: rat where "u = 2 powi (e - 52)"
  have u: "0 < u" by (simp add: u_def)
  from binary_exponent_bounds [OF assms] have ex: "2 powi e \<le> x" by (simp add: e_def)
  have rd: "round_double x = of_int (round_half_even (x / u)) * u"
    using assms by (simp add: round_double_def e_def u_def Let_def)
  have "\<bar>round_double x - x\<bar> = \<bar>of_int (round_half_even (x / u)) - x / u\<bar> * u"
  proof -
    have "round_double x - x = (of_int (round_half_even (x / u)) - x / u) * u"
      using u by (simp add: rd algebra_simps)
    then show ?thesis using u by (simp add: abs_mult)
  qed
  also have "\<dots> \<le> (1 / 2) * u"
    using round_half_even_error [of "x / u"] u by (intro mult_right_mono) simp_all
  also have "\<dots> = 2 powi e / 2 ^ 53"
  proof -
    have "u = 2 powi e / 2 powi 52" by (simp add: u_def power_int_diff)
    then show ?thesis by simp
  qed
  also have "\<dots> \<le> x / 2 ^ 53"
    using ex by (simp add: divide_right_mono)
  finally show ?thesis .
qed

lemma round_double_exact:
  assumes "0 < k" and "k < 2 ^ 53"
  shows "round_double (of_int k * 2 powi j) = of_int k * 2 powi j"
proof -
  define x :: rat where "x = of_int k * 2 powi j"
  have x: "0 < x" using assms(1) by (simp add: x_def)
  define e where "e = binary_exponent x"
  from binary_exponent_bounds [OF x] have ex: "2 powi e \<le> x" by (simp add: e_def)
  have "x < 2 ^ 53 * 2 powi j"
  proof -
    have "(of_int k :: rat) < of_int (2 ^ 53)" using assms(2) by (simp only: of_int_less_iff)
    then show ?thesis unfolding x_def by (intro mult_strict_right_mono) simp_all
  qed
  also have "\<dots> = 2 powi (53 + j)"
    by (simp add: power_int_add)
  finally have "(2::rat) powi e < 2 powi (53 + j)" using ex by simp
  then have "e < 53 + j"
    using power_int_increasing [of "53 + j" e "2::rat"] by (cases "e < 53 + j") auto
  define d where "d = j - (e - 52)"
  with \<open>e < 53 + j\<close> have d: "0 \<le> d" by simp
  define u :: rat where "u = 2 powi (e - 52)"
  have u: "0 < u" by (simp add: u_def)
  have "x / u = of_int k * (2 powi j / 2 powi (e - 52))"
    by (simp add: x_def u_def)
  also have "2 powi j / 2 powi (e - 52) = (2::rat) powi d"
    by (simp add: d_def power_int_diff)
  also have "\<dots> = of_int (2 ^ nat d)" using d by (rule two_powi_nat)
  finally have xu: "x / u = of_int (k * 2 ^ nat d)" by simp
  have "round_double x = of_int (round_half_even (x / u)) * u"
    using x by (simp add: round_double_def e_def u_def Let_def)
  also have "\<dots> = (x / u) * u"
    unfolding xu round_half_even_of_int ..
  also have "\<dots> = x" using u by simp
  finally show ?thesis by (simp add: x_def)
qed

lemma round_double_zero: "round_double 0 = 0"
  by (simp add: round_double_def)


lemma py_int_nonneg: "0 \<le> x \<Longrightarrow> py_int x = \<lfloor>x\<rfloor>"
  by (simp add: py_int_def)

lemma progress_percent_zero: "0 < t \<Longrightarrow> progress_percent 0 t = Inr 0"
  by (simp add: progress_percent_def py_truediv_def py_float_mul_def py_int_def round_double_zero)

lemma progress_percent_exact:
  assumes k: "0 < k" "k < 2 ^ 53" and k2: "0 < k2" "k2 < 2 ^ 53" and t: "t \<noteq> 0"
    and q: "of_int (int c) / of_int (int t) = (of_int k :: rat) * 2 powi j"
    and m: "of_int k * 2 powi j * 100 = (of_int k2 :: rat) * 2 powi j2"
  shows "progress_percent c t = Inr \<lfloor>of_int k2 * (2::rat) powi j2\<rfloor>"
proof -
  have "py_truediv (int c) (int t) = Inr (round_double (of_int k * 2 powi j))"
    using t by (simp only: py_truediv_def q) simp
  then have 1: "py_truediv (int c) (int t) = Inr (of_int k * 2 powi j)"
    by (simp only: round_double_exact [OF k])
  have "py_float_mul (of_int k * 2 powi j) 100 = round_double (of_int k2 * 2 powi j2)"
    by (simp only: py_float_mul_def m)
  then have 2: "py_float_mul (of_int k * 2 powi j) 100 = of_int k2 * 2 powi j2"
    by (simp only: round_double_exact [OF k2])
  have "(0::rat) \<le> of_int k2 * 2 powi j2" using k2(1) by simp
  then have 3: "py_int (of_int k2 * 2 powi j2) = \<lfloor>of_int k2 * (2::rat) powi j2\<rfloor>"
    by (rule py_int_nonneg)
  show ?thesis
    by (simp only: progress_percent_def 1 sum.case 2 3)
qed

lemma nat_bound_int: "c < 2 ^ 40 \<Longrightarrow> int c < 2 ^ 40"
  by (metis of_nat_less_iff of_nat_numeral of_nat_power)

lemma progress_percent_4:
  assumes "c < 2 ^ 40"
  shows "progress_percent c 4 = Inr ((100 * int c) div 4)"
proof (cases "c = 0")
  case True
  then show ?thesis by (simp add: progress_percent_zero)
next
  case False
  define k where "k = int c"
  define k2 where "k2 = 25 * int c"
  from False nat_bound_int [OF assms]
  have k: "0 < k" "k < 2 ^ 53" and k2: "0 < k2" "k2 < 2 ^ 53"
    by (simp_all add: k_def k2_def)
  have q: "of_int (int c) / of_int (int 4) = (of_int k :: rat) * 2 powi (- 2)"
    by (simp add: k_def power_int_minus_divide)
  have m: "of_int k * 2 powi (- 2) * 100 = (of_int k2 :: rat) * 2 powi 0"
    by (simp add: k_def k2_def power_int_minus_divide)
  have "\<lfloor>of_int k2 * (2::rat) powi 0\<rfloor> = k2" by simp
  moreover have "(100 * int c) div 4 = k2" by (simp add: k2_def)
  ultimately show ?thesis
    using progress_percent_exact [OF k k2 _ q m] by simp
qed

lemma progress_percent_8:
  assumes "c < 2 ^ 40"
  shows "progress_percent c 8 = Inr ((100 * int c) div 8)"
proof (cases "c = 0")
  case True
  then show ?thesis by (simp add: progress_percent_zero)
next
  case False
  define k where "k = int c"
  define k2 where "k2 = 25 * int c"
  from False nat_bound_int [OF assms]
  have k: "0 < k" "k < 2 ^ 53" and k2: "0 < k2" "k2 < 2 ^ 53"
    by (simp_all add: k_def k2_def)
  have q: "of_int (int c) / of_int (int 8) = (of_int k :: rat) * 2 powi (- 3)"
    by (simp add: k_def power_int_minus_divide)
  have m: "of_int k * 2 powi (- 3) * 100 = (of_int k2 :: rat) * 2 powi (- 1)"
    by (simp add: k_def k2_def power_int_minus_divide)
  have "(of_int k2 :: rat) * 2 powi (- 1) = of_int k2 / of_int 2"
    by (simp add: power_int_minus_divide)
  then have "\<lfloor>of_int k2 * (2::rat) powi (- 1)\<rfloor> = k2 div 2"
    by (simp only: floor_divide_of_int_eq)
  moreover have "(100 * int c) div 8 = k2 div 2"
  proof -
    have "(100 * int c) div 8 = (4 * (25 * int c)) div (4 * 2)" by simp
    also have "\<dots> = (25 * int c) div 2" by (rule div_mult_mult1) simp
    finally show ?thesis by (simp add: k2_def)
  qed
  ultimately show ?thesis
    using progress_percent_exact [OF k k2 _ q m] by simp
qed

lemma progress_percent_6:
  assumes "c < 2 ^ 40"
  shows "progress_percent c 6 = Inr ((100 * int c) div 6)"
proof (cases "c mod 3 = 0")
  case True
  then obtain m where m: "c = 3 * m" by (auto simp: mod_eq_0_iff_dvd)
  show ?thesis
  proof (cases "m = 0")
    case True
    with m show ?thesis by (simp add: progress_percent_zero)
  next
    case False
    define k where "k = int m"
    define k2 where "k2 = 50 * int m"
    from nat_bound_int [OF assms] m have "int m < 2 ^ 40" by simp
    with False have k: "0 < k" "k < 2 ^ 53" and k2: "0 < k2" "k2 < 2 ^ 53"
      by (simp_all add: k_def k2_def)
    have q: "of_int (int c) / of_int (int 6) = (of_int k :: rat) * 2 powi (- 1)"
      by (simp add: k_def m power_int_minus_divide)
    have mm: "of_int k * 2 powi (- 1) * 100 = (of_int k2 :: rat) * 2 powi 0"
      by (simp add: k_def k2_def power_int_minus_divide)
    have "\<lfloor>of_int k2 * (2::rat) powi 0\<rfloor> = k2" by simp
    moreover have "(100 * int c) div 6 = k2" by (simp add: k2_def m)
    ultimately show ?thesis
      using progress_percent_exact [OF k k2 _ q mm] by simp
  qed
next
  case False
  then have c0: "0 < c" by (cases c) auto
  from assms have c40: "int c < 2 ^ 40" by (metis of_nat_less_iff of_nat_numeral of_nat_power)
  define q :: rat where "q = of_int (int c) / 6"
  define T :: rat where "T = 100 * q"
  define x1 where "x1 = round_double q"
  define y where "y = x1 * 100"
  define x2 where "x2 = round_double y"
  have q0: "0 < q" using c0 by (simp add: q_def)
  have T0: "0 < T" using q0 by (simp add: T_def)
  from round_double_error [OF q0] have e1: "\<bar>x1 - q\<bar> \<le> q / 2 ^ 53" by (simp add: x1_def)
  have "q / 2 ^ 53 < q" using q0 by (simp add: divide_less_eq)
  with e1 have x10: "0 < x1" by linarith
  then have y0: "0 < y" by (simp add: y_def)
  from round_double_error [OF y0] have e2: "\<bar>x2 - y\<bar> \<le> y / 2 ^ 53" by (simp add: x2_def)
  have ey: "\<bar>y - T\<bar> \<le> T / 2 ^ 53"
  proof -
    have "\<bar>y - T\<bar> = 100 * \<bar>x1 - q\<bar>" by (simp add: y_def T_def abs_if)
    also have "\<dots> \<le> 100 * (q / 2 ^ 53)" using e1 by simp
    finally show ?thesis by (simp add: T_def)
  qed
  have "T / 2 ^ 53 \<le> T" using T0 by (simp add: divide_le_eq)
  with ey have y2T: "y \<le> 2 * T" by linarith
  then have "y / 2 ^ 53 \<le> 2 * T / 2 ^ 53" by (simp add: divide_right_mono)
  with e2 ey have e3: "\<bar>x2 - T\<bar> \<le> 3 * T / 2 ^ 53" by linarith
  have "T = of_int (50 * int c) / 3" by (simp add: T_def q_def)
  have "3 * T / 2 ^ 53 = of_int (50 * int c) / 2 ^ 53" by (simp add: T_def q_def)
  also have "\<dots> < 1 / 3"
  proof -
    have "(of_int (50 * int c) :: rat) < of_int (50 * 2 ^ 40)"
      using c40 by (simp only: of_int_less_iff)
    then have "(of_int (50 * int c) :: rat) / 2 ^ 53 < of_int (50 * 2 ^ 40) / 2 ^ 53"
      by (simp add: divide_strict_right_mono)
    also have "\<dots> < 1 / 3" by simp
    finally show ?thesis .
  qed
  finally have e4: "\<bar>x2 - T\<bar> < 1 / 3" using e3 by linarith
  define n where "n = (50 * int c) div 3"
  define r where "r = (50 * int c) mod 3"
  have r: "r = 1 \<or> r = 2"
  proof -
    define s where "s = int c mod 3"
    have "s = int (c mod 3)" by (simp add: s_def zmod_int)
    with False have "s \<noteq> 0" by simp
    moreover have "0 \<le> s" "s < 3" by (simp_all add: s_def)
    ultimately have s: "s = 1 \<or> s = 2" by linarith
    have "r = ((50 mod 3) * s) mod 3"
      unfolding r_def s_def by (simp only: mod_mult_eq)
    with s show ?thesis by auto
  qed
  have "50 * int c = 3 * n + r" by (simp add: n_def r_def)
  then have "(of_int (50 * int c) :: rat) = 3 * of_int n + of_int r"
    by (metis of_int_add of_int_mult of_int_numeral)
  with \<open>T = of_int (50 * int c) / 3\<close> have Tn: "T = of_int n + of_int r / 3" by simp
  from r have "(of_int r :: rat) = 1 \<or> (of_int r :: rat) = 2" by auto
  with Tn have "of_int n + 1 / 3 \<le> T" "T \<le> of_int n + 2 / 3" by auto
  with e4 have "of_int n < x2" "x2 < of_int n + 1"
    by linarith+
  then have fl: "\<lfloor>x2\<rfloor> = n" by (simp add: floor_unique)
  have "0 \<le> n" by (simp add: n_def)
  then have "(0::rat) \<le> of_int n" by simp
  with \<open>of_int n < x2\<close> have "0 \<le> x2" by linarith
  with fl have "py_int x2 = n" by (simp add: py_int_def)
  moreover have "(100 * int c) div 6 = n"
  proof -
    have "(100 * int c) div 6 = (2 * (50 * int c)) div (2 * 3)" by simp
    also have "\<dots> = (50 * int c) div 3" by (rule div_mult_mult1) simp
    finally show ?thesis by (simp add: n_def)
  qed
  moreover have "progress_percent c 6 = Inr (py_int x2)"
    by (simp add: progress_percent_def py_truediv_def py_float_mul_def x2_def y_def x1_def q_def)
  ultimately show ?thesis by simp
qed

lemma progress_percent_not_floor_in_general: "progress_percent 29 100 = Inr 28"
  by code_simp

lemma length_get_stage_order:
  "length (get_stage_order mode) = 0 \<or> length (get_stage_order mode) = 4
   \<or> length (get_stage_order mode) = 6 \<or> length (get_stage_order mode) = 8"
  by (simp add: get_stage_order_def)


subsection \<open>The percentage after each command\<close>

lemma progress_percent_examples:
  "progress_percent (Suc 0) (Suc (Suc (Suc (Suc 0)))) = Inr 25"
  "progress_percent (Suc (Suc 0)) (Suc (Suc (Suc (Suc 0)))) = Inr 50"
  "progress_percent (Suc (Suc (Suc 0))) (Suc (Suc (Suc (Suc 0)))) = Inr 75"
proof -
  have pp: "progress_percent 1 4 = Inr 25" "progress_percent 2 4 = Inr 50"
    "progress_percent 3 4 = Inr 75"
    by (simp_all add: progress_percent_4)
  have "progress_percent (Suc 0) (Suc (Suc (Suc (Suc 0)))) = progress_percent 1 4"
    "progress_percent (Suc (Suc 0)) (Suc (Suc (Suc (Suc 0)))) = progress_percent 2 4"
    "progress_percent (Suc (Suc (Suc 0))) (Suc (Suc (Suc (Suc 0)))) = progress_percent 3 4"
    by (simp_all add: eval_nat_numeral)
  with pp show "progress_percent (Suc 0) (Suc (Suc (Suc (Suc 0)))) = Inr 25"
    "progress_percent (Suc (Suc 0)) (Suc (Suc (Suc (Suc 0)))) = Inr 50"
    "progress_percent (Suc (Suc (Suc 0))) (Suc (Suc (Suc (Suc 0)))) = Inr 75"
    by simp_all
qed



subsection \<open>Reset to a stage\<close>

lemma list_index_Some: "s \<in> set xs \<Longrightarrow> \<exists>j. list_index xs s = Some j"
  by (induction xs) auto

lemma list_index_before:
  "list_index xs s = Some j \<Longrightarrow> j < i \<longleftrightarrow> s \<in> set (take i xs)"
proof (induction xs arbitrary: i j)
  case Nil
  then show ?case by simp
next
  case (Cons x xs)
  show ?case
  proof (cases i)
    case 0
    then show ?thesis by simp
  next
    case (Suc i')
    show ?thesis
    proof (cases "x = s")
      case True
      with Cons.prems Suc show ?thesis by simp
    next
      case False
      with Cons.prems obtain j' where j': "list_index xs s = Some j'" "j = Suc j'"
        by auto
      from Cons.IH [OF j'(1), of i'] False Suc j'(2) show ?thesis by auto
    qed
  qed
qed

lemma completed_before_filter:
  "set cs \<subseteq> set order
   \<Longrightarrow> completed_before order i cs = Inr (filter (\<lambda>s. s \<in> set (take i order)) cs)"
proof (induction cs)
  case Nil
  then show ?case by simp
next
  case (Cons c cs)
  then obtain j where j: "list_index order c = Some j"
    using list_index_Some [of c order] by auto
  from Cons have "completed_before order i cs = Inr (filter (\<lambda>s. s \<in> set (take i order)) cs)"
    by simp
  with j list_index_before [OF j, of i] show ?case by simp
qed

lemma reset_following_stages_outside:
  "s \<notin> set xs \<Longrightarrow> reset_following_stages xs prog s = prog s"
  by (induction xs arbitrary: prog) (auto split: option.splits)

lemma reset_following_stages_inside:
  "s \<in> set xs \<Longrightarrow>
     reset_following_stages xs prog s
       = map_option (\<lambda>e. e\<lparr>entry_status := ''pending'', entry_progress := 0,
                             entry_last_updated := None\<rparr>) (prog s)"
proof (induction xs arbitrary: prog)
  case Nil
  then show ?case by simp
next
  case (Cons x xs)
  show ?case
  proof (cases "s \<in> set xs")
    case True
    from Cons.IH [OF True] show ?thesis
      by (auto split: option.splits)
  next
    case False
    with Cons.prems have "x = s" by simp
    with False show ?thesis
      by (simp add: reset_following_stages_outside split: option.splits)
  qed
qed

lemma distinct_get_stage_order: "distinct (get_stage_order mode)"
  by (simp add: get_stage_order_def)

lemma progress_percent_returns:
  assumes "length (get_stage_order mode) \<noteq> 0" and "c < 2 ^ 40"
  shows "progress_percent c (length (get_stage_order mode))
           = Inr ((100 * int c) div int (length (get_stage_order mode)))"
  using assms length_get_stage_order [of mode] progress_percent_4 [of c]
    progress_percent_6 [of c] progress_percent_8 [of c]
  by auto

text \<open>
  Claim C5 as stated fails: in the example project, \<open>reset planning\<close> leaves the target
  stage planning as it was, completed with progress 100 and its time stamp; only the
  stages after the target are cleared.
\<close>

theorem reset_stage_target_counterexample:
  "get_stage_order (project_mode example_flow)
     = [''analysis'', ''planning'', ''implementation'', ''validation'']
   \<and> \<not> isl (reset_stage 5 True [] example_flow example_progress ''planning'')
   \<and> snd (snd (projr (reset_stage 5 True [] example_flow example_progress ''planning'')))
        ''planning''
     = Some \<lparr>entry_status = ''completed'', entry_progress = 100, entry_last_updated = Some 3\<rparr>"
  by (simp add: reset_stage_def example_flow_def example_progress_def Let_def
      get_stage_order_def save_current_state_def progress_percent_examples)

text \<open>
  Claim C5, amended. Let the target be at position \<open>i\<close> of the mode's stage order, the
  command be confirmed, and the completed stages all be stages of the mode (fewer than
  \<open>2^40\<close>). Then reset succeeds and: the current stage is the target; the completed
  stages are those of the old list that are placed strictly before the target; the
  percentage is recomputed from that list; the entries of the stages up to and including
  the target (and of any stage outside the order) are untouched; and every stage after
  the target that has an entry gets the status pending, the progress 0 and no
  \<open>last_updated\<close> stamp.
\<close>

theorem reset_stage_effect:
  assumes "list_index (get_stage_order (project_mode state)) target = Some i"
    and "force \<or> accepted response"
    and "set (completed_stages state) \<subseteq> set (get_stage_order (project_mode state))"
    and "length (completed_stages state) < 2 ^ 40"
  shows "\<exists>state' prog'.
           reset_stage now force response state prog target = Inr (True, state', prog')
           \<and> flow_current_stage state' = target
           \<and> flow_next_stage state' = stage_after (get_stage_order (project_mode state)) target
           \<and> completed_stages state'
               = filter (\<lambda>s. s \<in> set (take i (get_stage_order (project_mode state))))
                   (completed_stages state)
           \<and> progress_percentage state'
               = (100 * int (length (completed_stages state')))
                   div int (length (get_stage_order (project_mode state)))
           \<and> (\<forall>s \<in> set (take (i + 1) (get_stage_order (project_mode state))).
                 prog' s = prog s)
           \<and> (\<forall>s. s \<notin> set (get_stage_order (project_mode state)) \<longrightarrow> prog' s = prog s)
           \<and> (\<forall>s \<in> set (drop (i + 1) (get_stage_order (project_mode state))).
                 prog' s = map_option (\<lambda>e. e\<lparr>entry_status := ''pending'', entry_progress := 0,
                                                entry_last_updated := None\<rparr>) (prog s))"
proof -
  let ?order = "get_stage_order (project_mode state)"
  let ?kept = "filter (\<lambda>s. s \<in> set (take i ?order)) (completed_stages state)"
  let ?pct = "(100 * int (length ?kept)) div int (length ?order)"
  let ?state' = "save_current_state now
                   (state\<lparr>flow_current_stage := target,
                          flow_next_stage := (if i + 1 < length ?order
                                              then Some (?order ! (i + 1)) else None),
                          completed_stages := ?kept,
                          progress_percentage := ?pct\<rparr>)"
  let ?prog' = "reset_following_stages (drop (i + 1) ?order) prog"
  from list_index_bound [OF assms(1)] have ne: "length ?order \<noteq> 0" by auto
  have "length ?kept \<le> length (completed_stages state)" by simp
  with assms(4) have "length ?kept < 2 ^ 40" by linarith
  from progress_percent_returns [OF ne this]
  have pct: "progress_percent (length ?kept) (length ?order) = Inr ?pct" .
  have res: "reset_stage now force response state prog target = Inr (True, ?state', ?prog')"
    using assms(1,2) completed_before_filter [OF assms(3), of i] pct
    by (auto simp: reset_stage_def Let_def)
  have nxt: "flow_next_stage ?state' = stage_after ?order target"
    using assms(1) by (simp add: save_current_state_def stage_after_def)
  have "distinct (take (i + 1) ?order @ drop (i + 1) ?order)"
    using distinct_get_stage_order [of "project_mode state"] by simp
  then have disj: "set (take (i + 1) ?order) \<inter> set (drop (i + 1) ?order) = {}"
    by (simp only: distinct_append)
  have upto: "\<forall>s \<in> set (take (i + 1) ?order). ?prog' s = prog s"
    using disj by (auto intro!: reset_following_stages_outside)
  have outside: "\<forall>s. s \<notin> set ?order \<longrightarrow> ?prog' s = prog s"
    by (auto intro!: reset_following_stages_outside dest: in_set_dropD)
  have after: "\<forall>s \<in> set (drop (i + 1) ?order).
                 ?prog' s = map_option (\<lambda>e. e\<lparr>entry_status := ''pending'', entry_progress := 0,
                                                entry_last_updated := None\<rparr>) (prog s)"
    by (simp add: reset_following_stages_inside)
  have fields: "flow_current_stage ?state' = target" "completed_stages ?state' = ?kept"
    "progress_percentage ?state' = (100 * int (length (completed_stages ?state')))
                   div int (length ?order)"
    by (simp_all add: save_current_state_def)
  from res nxt upto outside after fields show ?thesis by blast
qed

text \<open>
  On the example project, \<open>reset planning\<close>: analysis and planning keep their entries,
  implementation and validation are cleared, analysis alone remains completed, and the
  percentage is 25.
\<close>

theorem reset_stage_effect_witness:
  "list_index (get_stage_order (project_mode example_flow)) ''planning'' = Some 1
   \<and> (True \<or> accepted [])
   \<and> set (completed_stages example_flow) \<subseteq> set (get_stage_order (project_mode example_flow))
   \<and> length (completed_stages example_flow) < 2 ^ 40
   \<and> (\<exists>state' prog'.
         reset_stage 5 True [] example_flow example_progress ''planning''
           = Inr (True, state', prog')
         \<and> flow_current_stage state' = ''planning''
         \<and> flow_next_stage state' = Some ''implementation''
         \<and> completed_stages state' = [''analysis'']
         \<and> progress_percentage state' = 25
         \<and> prog' ''analysis'' = example_progress ''analysis''
         \<and> prog' ''planning'' = example_progress ''planning''
         \<and> prog' ''implementation''
             = Some \<lparr>entry_status = ''pending'', entry_progress = 0, entry_last_updated = None\<rparr>
         \<and> prog' ''validation''
             = Some \<lparr>entry_status = ''pending'', entry_progress = 0, entry_last_updated = None\<rparr>)"
proof -
  have order: "get_stage_order (project_mode example_flow)
                 = [''analysis'', ''planning'', ''implementation'', ''validation'']"
    by (simp add: example_flow_def get_stage_order_def)
  have h: "list_index (get_stage_order (project_mode example_flow)) ''planning'' = Some 1"
    "True \<or> accepted []"
    "set (completed_stages example_flow) \<subseteq> set (get_stage_order (project_mode example_flow))"
    "length (completed_stages example_flow) < 2 ^ 40"
    unfolding order by (simp_all add: example_flow_def)
  from reset_stage_effect [OF h, of 5 example_progress]
  obtain state' prog' where r:
    "reset_stage 5 True [] example_flow example_progress ''planning'' = Inr (True, state', prog')"
    "flow_current_stage state' = ''planning''"
    "flow_next_stage state' = stage_after (get_stage_order (project_mode example_flow)) ''planning''"
    "completed_stages state'
       = filter (\<lambda>s. s \<in> set (take 1 (get_stage_order (project_mode example_flow))))
           (completed_stages example_flow)"
    "progress_percentage state'
       = (100 * int (length (completed_stages state')))
           div int (length (get_stage_order (project_mode example_flow)))"
    "\<forall>s \<in> set (take (1 + 1) (get_stage_order (project_mode example_flow))). prog' s = example_progress s"
    "\<forall>s \<in> set (drop (1 + 1) (get_stage_order (project_mode example_flow))).
        prog' s = map_option (\<lambda>e. e\<lparr>entry_status := ''pending'', entry_progress := 0,
                                       entry_last_updated := None\<rparr>) (example_progress s)"
    by blast
  from r(4) have c: "completed_stages state' = [''analysis'']"
    unfolding order by (simp add: example_flow_def)
  from r(5) c have p: "progress_percentage state' = 25"
    unfolding order by simp
  from r(3) have n: "flow_next_stage state' = Some ''implementation''"
    unfolding order by (simp add: stage_after_def)
  from r(6) have k: "prog' ''analysis'' = example_progress ''analysis''"
    "prog' ''planning'' = example_progress ''planning''"
    unfolding order by simp_all
  from r(7) have a: "prog' ''implementation''
             = Some \<lparr>entry_status = ''pending'', entry_progress = 0, entry_last_updated = None\<rparr>"
    "prog' ''validation''
             = Some \<lparr>entry_status = ''pending'', entry_progress = 0, entry_last_updated = None\<rparr>"
    unfolding order by (simp_all add: example_progress_def)
  from h r(1,2) c p n k a show ?thesis by blast
qed

section \<open>Marking a stage complete twice\<close>

lemma set_add_memory_ids: "set (add_memory_ids ms acc) = set acc \<union> set ms"
  by (induction ms arbitrary: acc) auto

lemma add_memory_ids_absorb: "set ms \<subseteq> set acc \<Longrightarrow> add_memory_ids ms acc = acc"
  by (induction ms arbitrary: acc) auto

lemma add_memory_ids_twice: "add_memory_ids ms (add_memory_ids ms acc) = add_memory_ids ms acc"
  by (rule add_memory_ids_absorb) (simp add: set_add_memory_ids)

lemma extend_memory_ids_fields:
  "current_stage (extend_memory_ids mem s) = current_stage s"
  "stage_status (extend_memory_ids mem s) = stage_status s"
  "progress (extend_memory_ids mem s) = progress s"
  "last_updated (extend_memory_ids mem s) = last_updated s"
  "abnormalities (extend_memory_ids mem s) = abnormalities s"
  "memory_ids (extend_memory_ids mem s)
     = (case mem of None \<Rightarrow> memory_ids s | Some ms \<Rightarrow> add_memory_ids ms (memory_ids s))"
  by (simp_all add: extend_memory_ids_def split: option.splits)

lemma engine_state_same:
  "progress s = p \<Longrightarrow> current_stage s = c \<Longrightarrow> stage_status s = ss
   \<Longrightarrow> s\<lparr>progress := p, current_stage := c, stage_status := ss\<rparr> = s"
  by auto

text \<open>
  Claim C2 as stated fails. In the state where S1 and S2 are completed and S3 is
  current, S1 is already completed, and bringing it to 100 again changes the state: the
  automatic advance runs a second time, S2 becomes the current stage and its status
  falls back from \<open>completed\<close> to \<open>in_progress\<close>.
\<close>

theorem complete_again_counterexample:
  "stage_status example_S2_completed ''S1'' = Some ''completed''
   \<and> current_stage example_S2_completed = ''S3''
   \<and> stage_status example_S2_completed ''S2'' = Some ''completed''
   \<and> \<not> isl (update_stage_progress 3 example_S2_completed ''S1'' 100 None)
   \<and> current_stage (projr (update_stage_progress 3 example_S2_completed ''S1'' 100 None)) = ''S2''
   \<and> stage_status (projr (update_stage_progress 3 example_S2_completed ''S1'' 100 None)) ''S2''
       = Some ''in_progress''"
  by (simp add: update_stage_progress_def example_S2_completed_def initialize_state_def
      stage_definitions_def save_state_def extend_memory_ids_def Let_def)

text \<open>
  Claim C2, amended. Marking a stage complete is idempotent when it is repeated at once:
  on the state that a successful first call has produced, a second call for the same
  stage yields that state again, up to the time stamps. This holds for the command
  \<open>complete\<close> of the stage manager (no second entry in the list of completed stages,
  the same percentage) and for \<open>update_stage_progress(stage, 100)\<close> of the state
  engine (the same current stage and statuses).
\<close>

theorem marking_complete_twice:
  "(complete_stage now force response state prog stage = Inr (True, state1, prog1)
      \<and> (force' \<or> accepted response') \<longrightarrow>
      (\<exists>entry1. prog1 stage = Some entry1
         \<and> entry_status entry1 = ''completed'' \<and> entry_progress entry1 = 100
         \<and> complete_stage now' force' response' state1 prog1 stage
             = Inr (True, state1\<lparr>project_last_updated := now'\<rparr>,
                    prog1(stage \<mapsto> entry1\<lparr>entry_last_updated := Some now'\<rparr>))))
   \<and> (update_stage_progress now st sid 100 mem = Inr st1 \<longrightarrow>
        update_stage_progress now' st1 sid 100 mem = Inr (st1\<lparr>last_updated := now'\<rparr>))"
proof (intro conjI impI)
  assume "complete_stage now force response state prog stage = Inr (True, state1, prog1)
      \<and> (force' \<or> accepted response')"
  then have first: "complete_stage now force response state prog stage = Inr (True, state1, prog1)"
    and go: "force' \<or> accepted response'"
    by blast+
  let ?completed = "if stage \<notin> set (completed_stages state)
                    then completed_stages state @ [stage] else completed_stages state"
  let ?order = "get_stage_order (project_mode state)"
  from first obtain entry percentage where e: "prog stage = Some entry"
    and pct: "progress_percent (length ?completed) (length ?order) = Inr percentage"
    and s1: "state1 = save_current_state now
                        (state\<lparr>completed_stages := ?completed, progress_percentage := percentage\<rparr>)"
    and p1: "prog1 = prog(stage \<mapsto> entry\<lparr>entry_status := ''completed'', entry_progress := 100,
                                             entry_last_updated := Some now\<rparr>)"
    by (auto simp: complete_stage_def Let_def split: option.splits if_splits sum.splits)
  let ?entry1 = "entry\<lparr>entry_status := ''completed'', entry_progress := 100,
                        entry_last_updated := Some now\<rparr>"
  have mem: "stage \<in> set (completed_stages state1)"
    by (simp add: s1 save_current_state_def)
  have c1: "completed_stages state1 = ?completed" and m1: "project_mode state1 = project_mode state"
    by (simp_all add: s1 save_current_state_def)
  have pct1: "progress_percent (length (completed_stages state1))
                (length (get_stage_order (project_mode state1))) = Inr percentage"
    using pct by (simp only: c1 m1)
  have same: "state1\<lparr>completed_stages := completed_stages state1,
                      progress_percentage := percentage\<rparr> = state1"
    by (simp add: s1 save_current_state_def)
  have "complete_stage now' force' response' state1 prog1 stage
          = Inr (True, state1\<lparr>project_last_updated := now'\<rparr>,
                 prog1(stage \<mapsto> ?entry1\<lparr>entry_last_updated := Some now'\<rparr>))"
    using go mem pct1 same
    by (auto simp: complete_stage_def Let_def p1 save_current_state_def)
  moreover have "prog1 stage = Some ?entry1" by (simp add: p1)
  ultimately show "\<exists>entry1. prog1 stage = Some entry1
         \<and> entry_status entry1 = ''completed'' \<and> entry_progress entry1 = 100
         \<and> complete_stage now' force' response' state1 prog1 stage
             = Inr (True, state1\<lparr>project_last_updated := now'\<rparr>,
                    prog1(stage \<mapsto> entry1\<lparr>entry_last_updated := Some now'\<rparr>))"
    by auto
next
  assume first: "update_stage_progress now st sid 100 mem = Inr st1"
  then have valid: "progress st sid \<noteq> None"
    by (auto simp: update_stage_progress_def split: if_splits)
  from first obtain nxt where nxt: "map_of stage_definitions sid = Some nxt"
    by (auto simp: update_stage_progress_def Let_def split: if_splits option.splits)
  show "update_stage_progress now' st1 sid 100 mem = Inr (st1\<lparr>last_updated := now'\<rparr>)"
  proof (cases "truthy nxt")
    case True
    from next_stage_differs [OF nxt True] have d: "the nxt \<noteq> sid" .
    let ?status = "(stage_status st)(sid \<mapsto> ''completed'', the nxt \<mapsto> ''in_progress'')"
    from first valid nxt True
    have st1: "st1 = save_state now (extend_memory_ids mem
                 (st\<lparr>progress := (progress st)(sid \<mapsto> 100), current_stage := the nxt,
                     stage_status := ?status\<rparr>))"
      by (auto simp: update_stage_progress_def Let_def)
    have f: "progress st1 = (progress st)(sid \<mapsto> 100)" "stage_status st1 = ?status"
      "current_stage st1 = the nxt"
      by (simp_all add: st1 save_state_def extend_memory_ids_fields)
    have again: "(?status)(sid \<mapsto> ''completed'', the nxt \<mapsto> ''in_progress'') = ?status"
      using d by (auto simp: fun_eq_iff)
    have mids: "extend_memory_ids mem st1 = st1"
      by (cases mem)
        (simp_all add: extend_memory_ids_def st1 save_state_def add_memory_ids_twice)
    have "update_stage_progress now' st1 sid 100 mem
            = Inr (save_state now' (extend_memory_ids mem
                (st1\<lparr>progress := (progress st1)(sid \<mapsto> 100), current_stage := the nxt,
                      stage_status := (stage_status st1)
                        (sid \<mapsto> ''completed'', the nxt \<mapsto> ''in_progress'')\<rparr>)))"
      using nxt True by (simp add: update_stage_progress_def Let_def f)
    also have "st1\<lparr>progress := (progress st1)(sid \<mapsto> 100), current_stage := the nxt,
                      stage_status := (stage_status st1)
                        (sid \<mapsto> ''completed'', the nxt \<mapsto> ''in_progress'')\<rparr> = st1"
      by (rule engine_state_same) (simp_all add: f again)
    finally show ?thesis by (simp add: mids save_state_def)
  next
    case False
    let ?status = "(stage_status st)(sid \<mapsto> ''completed'')"
    from first valid nxt False
    have st1: "st1 = save_state now (extend_memory_ids mem
                 (st\<lparr>progress := (progress st)(sid \<mapsto> 100), current_stage := sid,
                     stage_status := ?status\<rparr>))"
      by (auto simp: update_stage_progress_def Let_def)
    have f: "progress st1 = (progress st)(sid \<mapsto> 100)" "stage_status st1 = ?status"
      "current_stage st1 = sid"
      by (simp_all add: st1 save_state_def extend_memory_ids_fields)
    have mids: "extend_memory_ids mem st1 = st1"
      by (cases mem)
        (simp_all add: extend_memory_ids_def st1 save_state_def add_memory_ids_twice)
    have "update_stage_progress now' st1 sid 100 mem
            = Inr (save_state now' (extend_memory_ids mem
                (st1\<lparr>progress := (progress st1)(sid \<mapsto> 100), current_stage := sid,
                      stage_status := (stage_status st1)(sid \<mapsto> ''completed'')\<rparr>)))"
      using nxt False by (simp add: update_stage_progress_def Let_def f)
    also have "st1\<lparr>progress := (progress st1)(sid \<mapsto> 100), current_stage := sid,
                      stage_status := (stage_status st1)(sid \<mapsto> ''completed'')\<rparr> = st1"
      by (rule engine_state_same) (simp_all add: f)
    finally show ?thesis by (simp add: mids save_state_def)
  qed
qed

text \<open>
  On the example project \<open>complete implementation\<close> is run at time 5 and again at time
  6; in the state engine S1 is brought to 100 at time 1 and again at time 2. The second
  call changes the time stamps only.
\<close>

theorem marking_complete_twice_witness:
  "complete_stage 5 True [] example_flow example_progress ''implementation''
     = Inr (True,
            example_flow\<lparr>completed_stages := [''analysis'', ''planning'', ''implementation''],
                          progress_percentage := 75, project_last_updated := 5\<rparr>,
            example_progress(''implementation'' \<mapsto>
              \<lparr>entry_status = ''completed'', entry_progress = 100, entry_last_updated = Some 5\<rparr>))
   \<and> (True \<or> accepted [])
   \<and> complete_stage 6 True []
        (example_flow\<lparr>completed_stages := [''analysis'', ''planning'', ''implementation''],
                      progress_percentage := 75, project_last_updated := 5\<rparr>)
        (example_progress(''implementation'' \<mapsto>
              \<lparr>entry_status = ''completed'', entry_progress = 100, entry_last_updated = Some 5\<rparr>))
        ''implementation''
     = Inr (True,
            example_flow\<lparr>completed_stages := [''analysis'', ''planning'', ''implementation''],
                          progress_percentage := 75, project_last_updated := 6\<rparr>,
            example_progress(''implementation'' \<mapsto>
              \<lparr>entry_status = ''completed'', entry_progress = 100, entry_last_updated = Some 6\<rparr>))
   \<and> update_stage_progress 1 (initialize_state 0) ''S1'' 100 None = Inr example_S1_completed
   \<and> update_stage_progress 2 example_S1_completed ''S1'' 100 None
     = Inr (example_S1_completed\<lparr>last_updated := 2\<rparr>)"
proof -
  let ?s = "example_flow\<lparr>completed_stages := [''analysis'', ''planning'', ''implementation''],
                          progress_percentage := 75, project_last_updated := 5\<rparr>"
  let ?p = "example_progress(''implementation'' \<mapsto>
              \<lparr>entry_status = ''completed'', entry_progress = 100, entry_last_updated = Some 5\<rparr>)"
  have a: "complete_stage 5 True [] example_flow example_progress ''implementation''
             = Inr (True, ?s, ?p)"
    by (simp add: complete_stage_def example_flow_def example_progress_def Let_def
        get_stage_order_def save_current_state_def progress_percent_examples)
  have g: "True \<or> accepted []" by simp
  from marking_complete_twice [where now = 5 and force = True and response = "[]"
      and state = example_flow and prog = example_progress and stage = "''implementation''"
      and ?state1.0 = ?s and ?prog1.0 = ?p and force' = True and response' = "[]" and now' = 6]
    marking_complete_twice [where now = 1 and st = "initialize_state 0" and sid = "''S1''"
      and mem = None and ?st1.0 = example_S1_completed and now' = 2]
    a g example_S1_completed_reached
  show ?thesis by simp
qed

end
